theory Spec2Isabelle
  imports
    Complex_Main
    "HOL-Library.Sublist"
    "HOL-Library.Char_ord"
    "HOL-Library.List_Lexorder"
    "HOL-Library.Product_Lexorder"
begin

section \<open>The document store read by \<open>app.py\<close>\<close>

text \<open>
  \<open>app.py\<close> is a script over a MongoDB database: every panel of the dashboard is one
  query (a \<open>count_documents\<close>, a \<open>find\<close> or an aggregation pipeline) followed by a
  branch on the rows that came back. The model below gives the documents the fields the
  script reads, each query stage the meaning MongoDB gives it on those fields, and each
  panel the branches of its \<open>try\<close>/\<open>except\<close>.

  A field of a document is absent (\<open>None\<close>) or holds a value. The values are the
  scalars null, number and string; numbers are exact rationals, so the rounding of
  IEEE doubles is outside the model. \<open>genres\<close> is absent or an array of scalars.
  Strings are byte strings (\<open>char list\<close>); case folding is that of the ASCII letters.
\<close>

datatype bson = BNull | BNum rat | BStr string

record movie =
  m_id :: nat
  title :: "bson option"
  year :: "bson option"
  genres :: "bson list option"
  imdb_rating :: "bson option"
  plot :: "bson option"
  others :: "(string \<times> bson) list"

record comment =
  c_id :: nat
  movie_id :: nat

text \<open>
  A collection that does not exist is \<open>None\<close> (\<open>list_collection_names\<close> does not
  list it); \<open>movies\<close> is read without that test, and a missing \<open>movies\<close> collection
  answers every query as the empty one does. Users are opaque: only their number is read.
\<close>

record store =
  movies :: "movie list"
  users :: "nat list option"
  comments :: "comment list option"

text \<open>The sidebar's widgets: \<open>year_range\<close>, \<open>selected_genres\<close>, \<open>rating_filter\<close>.\<close>

record filter_state =
  year_range :: "int \<times> int"
  selected_genres :: "string list"
  rating_filter :: rat

section \<open>Query operators\<close>

text \<open>
  Comparison operators compare within one type only: \<open>{"$gte": b}\<close> with a number \<open>b\<close>
  matches a field that holds a number not below \<open>b\<close>, and no absent, null or string
  field.
\<close>

fun q_gte :: "rat \<Rightarrow> bson option \<Rightarrow> bool" where
  "q_gte b (Some (BNum x)) = (b \<le> x)"
| "q_gte b _ = False"

fun q_lte :: "rat \<Rightarrow> bson option \<Rightarrow> bool" where
  "q_lte b (Some (BNum x)) = (x \<le> b)"
| "q_lte b _ = False"

fun q_type_number :: "bson option \<Rightarrow> bool" where
  "q_type_number (Some (BNum x)) = True"
| "q_type_number _ = False"

text \<open>\<open>{"$in": sel}\<close> on an array field: some element of the array equals some element of \<open>sel\<close>.\<close>

fun q_in :: "string list \<Rightarrow> bson list option \<Rightarrow> bool" where
  "q_in sel (Some gs) = list_ex (\<lambda>g. g \<in> set (map BStr sel)) gs"
| "q_in sel None = False"

text \<open>
  \<open>match_stage\<close> (lines 145-151): the year and rating conditions always, the genre
  condition only when \<open>selected_genres\<close> is a non-empty list.
\<close>

definition match_stage :: "filter_state \<Rightarrow> movie \<Rightarrow> bool" where
  "match_stage f m =
     (q_gte (of_int (fst (year_range f))) (year m) \<and>
      q_lte (of_int (snd (year_range f))) (year m) \<and>
      q_gte (rating_filter f) (imdb_rating m) \<and>
      q_type_number (imdb_rating m) \<and>
      (if selected_genres f \<noteq> [] then q_in (selected_genres f) (genres m) else True))"

section \<open>Aggregation stages\<close>

text \<open>A field path used as an expression: an absent field groups under null.\<close>

fun field_value :: "bson option \<Rightarrow> bson" where
  "field_value (Some v) = v"
| "field_value None = BNull"

text \<open>
  \<open>$group\<close>: one bucket per distinct key, holding the documents with that key. MongoDB
  leaves the order of the buckets open; the model lists them by last occurrence.
\<close>

definition group_by :: "('a \<Rightarrow> bson) \<Rightarrow> 'a list \<Rightarrow> (bson \<times> 'a list) list" where
  "group_by key xs = map (\<lambda>k. (k, filter (\<lambda>x. key x = k) xs)) (remdups (map key xs))"

text \<open>\<open>$avg\<close> averages the numeric values and ignores the others; with none it is null.\<close>

fun numbers :: "bson option list \<Rightarrow> rat list" where
  "numbers [] = []"
| "numbers (Some (BNum x) # vs) = x # numbers vs"
| "numbers (v # vs) = numbers vs"

definition avg :: "bson option list \<Rightarrow> bson" where
  "avg vs = (let ns = numbers vs in
     if ns = [] then BNull else BNum (sum_list ns / of_nat (length ns)))"

text \<open>The rows of the two grouping pipelines: \<open>_id\<close>, \<open>avgRating\<close>, \<open>movieCount\<close>.\<close>

record agg_row =
  row_id :: bson
  avgRating :: bson
  movieCount :: nat

text \<open>
  The order of \<open>$sort\<close> across types is null, then numbers, then strings; \<open>bson_key\<close> maps
  a value to a key of a lexicographic product that has this order.
\<close>

fun bson_key :: "bson \<Rightarrow> nat \<times> rat \<times> string" where
  "bson_key BNull = (0, 0, [])"
| "bson_key (BNum x) = (1, x, [])"
| "bson_key (BStr s) = (2, 0, s)"

definition sort_asc :: "('a \<Rightarrow> 'k::linorder) \<Rightarrow> 'a list \<Rightarrow> 'a list" where
  "sort_asc key xs = sort_key key xs"

definition sort_desc :: "('a \<Rightarrow> nat) \<Rightarrow> 'a list \<Rightarrow> 'a list" where
  "sort_desc key xs = sort_key (\<lambda>x. - int (key x)) xs"

subsection \<open>Rating trend (lines 159-167)\<close>

definition trend_group :: "movie list \<Rightarrow> agg_row list" where
  "trend_group ms = map (\<lambda>(k, b).
      \<lparr>row_id = k, avgRating = avg (map imdb_rating b), movieCount = length b\<rparr>)
    (group_by (\<lambda>m. field_value (year m)) ms)"

definition trend_pipeline :: "filter_state \<Rightarrow> movie list \<Rightarrow> agg_row list" where
  "trend_pipeline f ms =
     sort_asc (\<lambda>r. bson_key (row_id r)) (trend_group (filter (match_stage f) ms))"

subsection \<open>Genre performance (lines 202-212)\<close>

text \<open>
  \<open>$unwind\<close> emits one copy of the document per element of the array, with the field
  replaced by that element, and drops a document whose array is absent or empty.
\<close>

fun unwind_genres :: "movie list \<Rightarrow> (movie \<times> bson) list" where
  "unwind_genres [] = []"
| "unwind_genres (m # ms) =
     (case genres m of None \<Rightarrow> [] | Some gs \<Rightarrow> map (\<lambda>g. (m, g)) gs) @ unwind_genres ms"

definition genre_group :: "(movie \<times> bson) list \<Rightarrow> agg_row list" where
  "genre_group us = map (\<lambda>(k, b).
      \<lparr>row_id = k, avgRating = avg (map (\<lambda>u. imdb_rating (fst u)) b), movieCount = length b\<rparr>)
    (group_by snd us)"

definition genre_pipeline :: "filter_state \<Rightarrow> movie list \<Rightarrow> agg_row list" where
  "genre_pipeline f ms =
     sort_desc movieCount
       (filter (\<lambda>r. row_id r \<noteq> BNull)
         (genre_group (unwind_genres (filter (match_stage f) ms))))"

subsection \<open>Most discussed movies (lines 268-286)\<close>

text \<open>
  \<open>$lookup\<close> attaches to every movie the comments whose \<open>movie_id\<close> is its \<open>_id\<close>;
  a \<open>comments\<close> collection that does not exist attaches none.
\<close>

definition lookup_comments :: "comment list option \<Rightarrow> movie \<Rightarrow> comment list" where
  "lookup_comments cs m =
     (case cs of None \<Rightarrow> [] | Some l \<Rightarrow> filter (\<lambda>c. movie_id c = m_id m) l)"

record disc_row =
  d_id :: nat
  d_title :: "bson option"
  d_year :: "bson option"
  d_rating :: "bson option"
  comment_count :: nat
  d_genres :: "bson list option"

definition disc_project :: "movie \<times> nat \<Rightarrow> disc_row" where
  "disc_project p = (case p of (m, n) \<Rightarrow>
     \<lparr>d_id = m_id m, d_title = title m, d_year = year m, d_rating = imdb_rating m,
      comment_count = n, d_genres = genres m\<rparr>)"

definition disc_sorted :: "filter_state \<Rightarrow> store \<Rightarrow> (movie \<times> nat) list" where
  "disc_sorted f s =
     sort_desc snd
       (filter (\<lambda>p. match_stage f (fst p))
         (map (\<lambda>m. (m, length (lookup_comments (comments s) m))) (movies s)))"

definition discussion_pipeline :: "filter_state \<Rightarrow> store \<Rightarrow> disc_row list" where
  "discussion_pipeline f s = map disc_project (take 15 (disc_sorted f s))"

subsection \<open>Title search (lines 326-332)\<close>

text \<open>
  \<open>{"$regex": search_query, "$options": "i"}\<close> hands the search text to the store's
  regular-expression engine as a pattern. The model interprets the patterns made of
  ordinary ASCII characters and of \<open>.\<close>: an ordinary character matches itself in either
  case, \<open>.\<close> matches any character but a newline, and the pattern matches a title when
  it matches at some position. Every other pattern is left to \<open>regex_ext\<close>, the engine
  as a parameter, which refuses a pattern with a message or returns its matcher.
\<close>

definition regex_meta :: "char list" where
  "regex_meta = [CHR 0x5C, CHR ''^'', CHR ''$'', CHR ''.'', CHR ''['', CHR '']'', CHR ''|'',
     CHR ''('', CHR '')'', CHR ''?'', CHR ''*'', CHR ''+'', CHR ''{'', CHR ''}'']"

definition ordinary :: "char \<Rightarrow> bool" where
  "ordinary c = (c \<notin> set regex_meta \<and> (of_char c :: nat) < 128)"

datatype rx_atom = Lit char | Dot

fun compile_fragment :: "string \<Rightarrow> rx_atom list option" where
  "compile_fragment [] = Some []"
| "compile_fragment (c # cs) =
     (if c = CHR ''.'' then map_option ((#) Dot) (compile_fragment cs)
      else if ordinary c then map_option ((#) (Lit c)) (compile_fragment cs)
      else None)"

definition lower :: "char \<Rightarrow> char" where
  "lower c =
     (case map_of (zip ''ABCDEFGHIJKLMNOPQRSTUVWXYZ'' ''abcdefghijklmnopqrstuvwxyz'') c of
        Some d \<Rightarrow> d | None \<Rightarrow> c)"

fun atom_matches :: "rx_atom \<Rightarrow> char \<Rightarrow> bool" where
  "atom_matches (Lit c) d = (lower c = lower d)"
| "atom_matches Dot d = (d \<noteq> CHR 0x0A)"

fun match_here :: "rx_atom list \<Rightarrow> string \<Rightarrow> bool" where
  "match_here [] s = True"
| "match_here (a # as) [] = False"
| "match_here (a # as) (d # ds) = (atom_matches a d \<and> match_here as ds)"

fun regex_search :: "rx_atom list \<Rightarrow> string \<Rightarrow> bool" where
  "regex_search as [] = match_here as []"
| "regex_search as (d # ds) = (match_here as (d # ds) \<or> regex_search as ds)"

text \<open>A regular expression matches string fields only.\<close>

fun q_regex :: "(string \<Rightarrow> bool) \<Rightarrow> bson option \<Rightarrow> bool" where
  "q_regex rx (Some (BStr t)) = rx t"
| "q_regex rx _ = False"

record search_row =
  s_id :: nat
  s_title :: "bson option"
  s_year :: "bson option"
  s_genres :: "bson list option"
  s_rating :: "bson option"
  s_plot :: "bson option"

definition search_project :: "movie \<Rightarrow> search_row" where
  "search_project m =
     \<lparr>s_id = m_id m, s_title = title m, s_year = year m, s_genres = genres m,
      s_rating = imdb_rating m, s_plot = plot m\<rparr>"

text \<open>\<open>cursor.limit(n)\<close>: a limit of 0 is no limit.\<close>

definition cursor_limit :: "nat \<Rightarrow> 'a list \<Rightarrow> 'a list" where
  "cursor_limit n xs = (if n = 0 then xs else take n xs)"

definition find_movies :: "(string \<Rightarrow> bool) \<Rightarrow> filter_state \<Rightarrow> nat \<Rightarrow> movie list \<Rightarrow> search_row list" where
  "find_movies rx f n ms =
     map search_project
       (cursor_limit n (filter (\<lambda>m. q_regex rx (title m) \<and> match_stage f m) ms))"

section \<open>The page: queries that may fail, and the panels around them\<close>

text \<open>
  Every call to the store may raise. Which calls do is the environment's choice:
  \<open>fault e q\<close> is the message of the exception that query \<open>q\<close> raises, or \<open>None\<close>.
\<close>

datatype query =
  QCountMovies | QListCollections | QCountUsers | QCountComments | QAvgRating
| QYearStats | QGenreList | QTrend | QGenre | QDiscussion | QSearch

record env =
  db :: store
  fault :: "query \<Rightarrow> string option"
  regex_ext :: "string \<Rightarrow> string + (string \<Rightarrow> bool)"

definition attempt :: "env \<Rightarrow> query \<Rightarrow> 'a \<Rightarrow> string + 'a" where
  "attempt e q v = (case fault e q of Some msg \<Rightarrow> Inl msg | None \<Rightarrow> Inr v)"

fun and_then :: "string + 'a \<Rightarrow> ('a \<Rightarrow> string + 'b) \<Rightarrow> string + 'b" where
  "and_then (Inl msg) k = Inl msg"
| "and_then (Inr v) k = k v"

text \<open>What a panel puts on the page. Message texts are the script's, without the emoji.\<close>

datatype 'r panel = Rendered 'r | ShowInfo string | ShowWarning string | ShowError string | NotRun

subsection \<open>Key performance indicators (lines 62-76)\<close>

record kpis =
  movies_count :: nat
  users_count :: nat
  comments_count :: nat
  avg_rating :: bson

definition count_if_listed :: "env \<Rightarrow> query \<Rightarrow> 'a list option \<Rightarrow> string + nat" where
  "count_if_listed e q coll =
     and_then (attempt e QListCollections coll)
       (\<lambda>c. case c of None \<Rightarrow> Inr 0 | Some l \<Rightarrow> attempt e q (length l))"

definition rating_data :: "movie list \<Rightarrow> bson list" where
  "rating_data ms =
     map (\<lambda>(k, b). avg (map imdb_rating b))
       (group_by (\<lambda>m. BNull) (filter (\<lambda>m. q_type_number (imdb_rating m)) ms))"

definition kpi_try :: "env \<Rightarrow> string + kpis" where
  "kpi_try e =
     and_then (attempt e QCountMovies (length (movies (db e)))) (\<lambda>mc.
     and_then (count_if_listed e QCountUsers (users (db e))) (\<lambda>uc.
     and_then (count_if_listed e QCountComments (comments (db e))) (\<lambda>cc.
     and_then (attempt e QAvgRating (rating_data (movies (db e)))) (\<lambda>rd.
       Inr \<lparr>movies_count = mc, users_count = uc, comments_count = cc,
            avg_rating = (case rd of [] \<Rightarrow> BNum 0 | r # _ \<Rightarrow> r)\<rparr>))))"

definition kpi_panel :: "env \<Rightarrow> string option \<times> kpis" where
  "kpi_panel e =
     (case kpi_try e of
        Inl msg \<Rightarrow> (Some (''Error calculating metrics: '' @ msg),
                    \<lparr>movies_count = 0, users_count = 0, comments_count = 0, avg_rating = BNum 0\<rparr>)
      | Inr k \<Rightarrow> (None, k))"

subsection \<open>Sidebar (lines 99-127)\<close>

definition py_int :: "rat \<Rightarrow> int" where
  "py_int x = (if 0 \<le> x then \<lfloor>x\<rfloor> else \<lceil>x\<rceil>)"

text \<open>\<open>$min\<close> and \<open>$max\<close> over the numeric values; null when there is none.\<close>

definition min_acc :: "bson option list \<Rightarrow> bson" where
  "min_acc vs = (case numbers vs of [] \<Rightarrow> BNull | y # ys \<Rightarrow> BNum (foldr min ys y))"

definition max_acc :: "bson option list \<Rightarrow> bson" where
  "max_acc vs = (case numbers vs of [] \<Rightarrow> BNull | y # ys \<Rightarrow> BNum (foldr max ys y))"

definition year_stats :: "movie list \<Rightarrow> (bson \<times> bson) list" where
  "year_stats ms =
     map (\<lambda>(k, b). (min_acc (map year b), max_acc (map year b)))
       (group_by (\<lambda>m. BNull) (filter (\<lambda>m. q_type_number (year m)) ms))"

text \<open>
  The bare \<open>except\<close> (line 106) answers every exception of the block with the default
  bounds, also the \<open>TypeError\<close> of \<open>int\<close> on a value that is not a number.
\<close>

definition slider_bounds :: "env \<Rightarrow> int \<times> int" where
  "slider_bounds e =
     (case attempt e QYearStats (year_stats (movies (db e))) of
        Inl msg \<Rightarrow> (1900, 2025)
      | Inr [] \<Rightarrow> (1900, 2025)
      | Inr ((BNum lo, BNum hi) # _) \<Rightarrow> (py_int lo, py_int hi)
      | Inr _ \<Rightarrow> (1900, 2025))"

fun truthy :: "bson \<Rightarrow> bool" where
  "truthy BNull = False"
| "truthy (BNum x) = (x \<noteq> 0)"
| "truthy (BStr s) = (s \<noteq> [])"

definition genres_data :: "movie list \<Rightarrow> (bson \<times> nat) list" where
  "genres_data ms =
     take 50 (sort_desc snd (map (\<lambda>(k, b). (k, length b)) (group_by snd (unwind_genres ms))))"

definition genre_list :: "env \<Rightarrow> bson list" where
  "genre_list e =
     (case attempt e QGenreList (genres_data (movies (db e))) of
        Inl msg \<Rightarrow> []
      | Inr gd \<Rightarrow> filter truthy (map fst gd))"

subsection \<open>The four filtered panels\<close>

definition trend_panel :: "env \<Rightarrow> filter_state \<Rightarrow> agg_row list panel" where
  "trend_panel e f =
     (case attempt e QTrend (trend_pipeline f (movies (db e))) of
        Inl msg \<Rightarrow> ShowError (''Error generating trend chart: '' @ msg)
      | Inr df_years \<Rightarrow>
          if df_years \<noteq> [] then Rendered df_years
          else ShowInfo ''No data available for the selected filters.'')"

definition genre_panel :: "env \<Rightarrow> filter_state \<Rightarrow> agg_row list panel" where
  "genre_panel e f =
     (case attempt e QGenre (genre_pipeline f (movies (db e))) of
        Inl msg \<Rightarrow> ShowError (''Error generating genre analysis: '' @ msg)
      | Inr df_genres \<Rightarrow>
          if df_genres \<noteq> [] then Rendered df_genres
          else ShowWarning ''No genre data available for current filters.'')"

text \<open>The panel runs only when the KPI block left \<open>comments_count\<close> positive (line 264).\<close>

definition discussion_panel :: "env \<Rightarrow> filter_state \<Rightarrow> nat \<Rightarrow> disc_row list panel" where
  "discussion_panel e f cc =
     (if cc > 0 then
        (case attempt e QDiscussion (discussion_pipeline f (db e)) of
           Inl msg \<Rightarrow> ShowError (''Error generating comments analysis: '' @ msg)
         | Inr df_discussed \<Rightarrow>
             if df_discussed \<noteq> [] then Rendered df_discussed
             else ShowInfo ''No comment data available for selected filters.'')
      else NotRun)"

definition compile_regex :: "env \<Rightarrow> string \<Rightarrow> string + (string \<Rightarrow> bool)" where
  "compile_regex e q =
     (case compile_fragment q of Some as \<Rightarrow> Inr (regex_search as) | None \<Rightarrow> regex_ext e q)"

definition search_query_run :: "env \<Rightarrow> filter_state \<Rightarrow> string \<Rightarrow> nat \<Rightarrow> string + search_row list" where
  "search_query_run e f q n =
     and_then (compile_regex e q) (\<lambda>rx.
       attempt e QSearch (find_movies rx f n (movies (db e))))"

text \<open>The panel runs only when \<open>search_query\<close> is a non-empty string (line 324).\<close>

definition search_panel :: "env \<Rightarrow> filter_state \<Rightarrow> string \<Rightarrow> nat \<Rightarrow> search_row list panel" where
  "search_panel e f q n =
     (if q \<noteq> [] then
        (case search_query_run e f q n of
           Inl msg \<Rightarrow> ShowError (''Search error: '' @ msg)
         | Inr df_search \<Rightarrow>
             if df_search \<noteq> [] then Rendered df_search
             else ShowWarning ''No movies found matching your search criteria.'')
      else NotRun)"

subsection \<open>The whole script\<close>

record page =
  kpi_error :: "string option"
  kpi_values :: kpis
  year_slider :: "int \<times> int"
  genre_options :: "bson list"
  trend_out :: "agg_row list panel"
  genre_out :: "agg_row list panel"
  discussion_out :: "disc_row list panel"
  search_out :: "search_row list panel"

definition dashboard :: "env \<Rightarrow> filter_state \<Rightarrow> string \<Rightarrow> nat \<Rightarrow> page" where
  "dashboard e f q n =
     (let k = kpi_panel e in
      \<lparr>kpi_error = fst k,
       kpi_values = snd k,
       year_slider = slider_bounds e,
       genre_options = genre_list e,
       trend_out = trend_panel e f,
       genre_out = genre_panel e f,
       discussion_out = discussion_panel e f (comments_count (snd k)),
       search_out = search_panel e f q n\<rparr>)"

fun panel_error :: "'r panel \<Rightarrow> string list" where
  "panel_error (ShowError msg) = [msg]"
| "panel_error _ = []"

definition errors_shown :: "page \<Rightarrow> string list" where
  "errors_shown p =
     (case kpi_error p of None \<Rightarrow> [] | Some msg \<Rightarrow> [msg]) @ panel_error (trend_out p) @
     panel_error (genre_out p) @ panel_error (discussion_out p) @ panel_error (search_out p)"

section \<open>The specification's words\<close>

text \<open>
  The specification's filter predicate on a year, a rating and a genre list: the year
  is a number within the range, the rating is a number not below the floor, and, when
  genres are selected, some genre of the list is a selected one. It is compared with
  \<open>match_stage\<close> below.
\<close>

definition spec_filter_predicate ::
    "filter_state \<Rightarrow> bson option \<Rightarrow> bson option \<Rightarrow> bson list option \<Rightarrow> bool" where
  "spec_filter_predicate f y r gs =
     ((case y of Some (BNum n) \<Rightarrow>
         of_int (fst (year_range f)) \<le> n \<and> n \<le> of_int (snd (year_range f)) | _ \<Rightarrow> False) \<and>
      (case r of Some (BNum x) \<Rightarrow> rating_filter f \<le> x | _ \<Rightarrow> False) \<and>
      (selected_genres f = [] \<or>
       (case gs of Some l \<Rightarrow> list_ex (\<lambda>g. g \<in> BStr ` set (selected_genres f)) l | None \<Rightarrow> False)))"



section \<open>Notions used in the statements\<close>

text \<open>The number a numeric value holds.\<close>

fun num_of :: "bson \<Rightarrow> rat" where
  "num_of (BNum x) = x"
| "num_of _ = 0"

text \<open>The elements of a movie's genre array; none when the field is absent.\<close>

definition genre_elems :: "movie \<Rightarrow> bson list" where
  "genre_elems m = (case genres m of None \<Rightarrow> [] | Some gs \<Rightarrow> gs)"

text \<open>The comments of the store; none when the collection does not exist.\<close>

definition stored_comments :: "store \<Rightarrow> comment list" where
  "stored_comments s = (case comments s of None \<Rightarrow> [] | Some l \<Rightarrow> l)"

text \<open>
  An environment changed at one query: \<open>with_fault e Q x\<close> raises at \<open>Q\<close> as \<open>x\<close> says
  and is \<open>e\<close> elsewhere. \<open>kpi_queries\<close> are the calls inside the KPI block's \<open>try\<close>.
\<close>

definition with_fault :: "env \<Rightarrow> query \<Rightarrow> string option \<Rightarrow> env" where
  "with_fault e Q x = e\<lparr>fault := (fault e)(Q := x)\<rparr>"

definition kpi_queries :: "query list" where
  "kpi_queries = [QCountMovies, QListCollections, QCountUsers, QCountComments, QAvgRating]"

section \<open>Sample data\<close>

text \<open>
  The two movies of the specification's scenarios, with one comment on the second. On
  this store the sidebar's year slider runs from 1994 to 2001 and offers the genres
  Drama and Comedy. \<open>scenario_filter\<close> is the whole range with no genre selected and
  the rating floor 0; \<open>comedy_filter\<close> selects one genre; no sample movie passes
  \<open>strict_filter\<close>.
\<close>

definition movie_alpha :: movie where
  "movie_alpha = \<lparr>m_id = 1, title = Some (BStr ''Alpha''), year = Some (BNum 1994),
     genres = Some [BStr ''Drama''], imdb_rating = Some (BNum (89 / 10)),
     plot = Some (BStr ''First''), others = [(''runtime'', BNum 100)]\<rparr>"

definition movie_beta :: movie where
  "movie_beta = \<lparr>m_id = 2, title = Some (BStr ''Beta''), year = Some (BNum 2001),
     genres = Some [BStr ''Drama'', BStr ''Comedy''], imdb_rating = Some (BNum (13 / 2)),
     plot = None, others = []\<rparr>"

definition scenario_movies :: "movie list" where
  "scenario_movies = [movie_alpha, movie_beta]"

definition scenario_store :: store where
  "scenario_store = \<lparr>movies = scenario_movies, users = None,
     comments = Some [\<lparr>c_id = 1, movie_id = 2\<rparr>]\<rparr>"

definition scenario_filter :: filter_state where
  "scenario_filter = \<lparr>year_range = (1994, 2001), selected_genres = [], rating_filter = 0\<rparr>"

definition comedy_filter :: filter_state where
  "comedy_filter = \<lparr>year_range = (1994, 2001), selected_genres = [''Comedy''], rating_filter = 0\<rparr>"

definition strict_filter :: filter_state where
  "strict_filter = \<lparr>year_range = (1994, 2001), selected_genres = [], rating_filter = 10\<rparr>"

text \<open>
  Two more movies, each of a year within the sample store's range: one whose stored
  rating is above the IMDb scale, and one with an empty genre list.
\<close>

definition movie_twelve :: movie where
  "movie_twelve = \<lparr>m_id = 3, title = Some (BStr ''Gamma''), year = Some (BNum 2000),
     genres = Some [BStr ''Horror''], imdb_rating = Some (BNum 12), plot = None, others = []\<rparr>"

definition movie_no_genres :: movie where
  "movie_no_genres = \<lparr>m_id = 4, title = Some (BStr ''Delta''), year = Some (BNum 2001),
     genres = Some [], imdb_rating = Some (BNum 8), plot = None, others = []\<rparr>"

text \<open>
  Environments: the sample store with no fault, with a fault in the KPI average, in the
  trend query, and in the two sidebar queries; and an empty store. Their regular
  expression engine refuses every pattern that the model does not interpret.
\<close>

definition scenario_env :: env where
  "scenario_env = \<lparr>db = scenario_store, fault = (\<lambda>q. None),
     regex_ext = (\<lambda>q. Inl ''unsupported pattern'')\<rparr>"

definition kpi_fault_env :: env where
  "kpi_fault_env = \<lparr>db = scenario_store,
     fault = (\<lambda>q. if q = QAvgRating then Some ''timeout'' else None),
     regex_ext = (\<lambda>q. Inl ''unsupported pattern'')\<rparr>"

definition trend_fault_env :: env where
  "trend_fault_env = with_fault scenario_env QTrend (Some ''timeout'')"

definition sidebar_fault_env :: env where
  "sidebar_fault_env = with_fault (with_fault scenario_env QYearStats (Some ''timeout''))
     QGenreList (Some ''timeout'')"

definition empty_env :: env where
  "empty_env = \<lparr>db = \<lparr>movies = [], users = None, comments = None\<rparr>, fault = (\<lambda>q. None),
     regex_ext = (\<lambda>q. Inl ''unsupported pattern'')\<rparr>"

section \<open>Facts about the operators and stages\<close>

lemmas scenario_defs =
  scenario_store_def scenario_movies_def movie_alpha_def movie_beta_def scenario_filter_def

lemma group_by_bucket:
  "(k, b) \<in> set (group_by key xs) \<longleftrightarrow> k \<in> key ` set xs \<and> b = filter (\<lambda>x. key x = k) xs"
  by (auto simp: group_by_def)

lemma bson_key_inj: "bson_key a = bson_key b \<longleftrightarrow> a = b"
  by (cases a; cases b) auto

lemma q_gte_iff: "q_gte b v \<longleftrightarrow> (\<exists>x. v = Some (BNum x) \<and> b \<le> x)"
  by (cases "(b, v)" rule: q_gte.cases) auto

lemma q_lte_iff: "q_lte b v \<longleftrightarrow> (\<exists>x. v = Some (BNum x) \<and> x \<le> b)"
  by (cases "(b, v)" rule: q_lte.cases) auto

lemma q_type_number_iff: "q_type_number v \<longleftrightarrow> (\<exists>x. v = Some (BNum x))"
  by (cases v rule: q_type_number.cases) auto

lemma match_stage_year:
  "match_stage f m \<Longrightarrow> \<exists>y. year m = Some (BNum y) \<and> of_int (fst (year_range f)) \<le> y \<and> y \<le> of_int (snd (year_range f))"
  unfolding match_stage_def by (auto simp: q_gte_iff q_lte_iff)

lemma match_stage_rating:
  "match_stage f m \<Longrightarrow> \<exists>x. imdb_rating m = Some (BNum x) \<and> rating_filter f \<le> x"
  unfolding match_stage_def by (auto simp: q_gte_iff)

lemma trend_group_ids: "map row_id (trend_group ms) = remdups (map (\<lambda>m. field_value (year m)) ms)"
  by (simp add: trend_group_def group_by_def comp_def)

lemma trend_group_row:
  "r \<in> set (trend_group ms) \<longleftrightarrow>
     row_id r \<in> (\<lambda>m. field_value (year m)) ` set ms \<and>
     r = (let b = filter (\<lambda>m. field_value (year m) = row_id r) ms in
       \<lparr>row_id = row_id r, avgRating = avg (map imdb_rating b), movieCount = length b\<rparr>)"
  by (auto simp: trend_group_def group_by_def Let_def)

lemma trend_pipeline_set: "set (trend_pipeline f ms) = set (trend_group (filter (match_stage f) ms))"
  by (simp add: trend_pipeline_def sort_asc_def)

lemma trend_row_year:
  assumes "r \<in> set (trend_pipeline f ms)"
  shows "\<exists>m\<in>set ms. match_stage f m \<and> year m = Some (row_id r)"
proof -
  from assms obtain m where m: "m \<in> set ms" "match_stage f m" "row_id r = field_value (year m)"
    by (auto simp: trend_pipeline_set trend_group_row)
  from match_stage_year[OF m(2)] obtain y where "year m = Some (BNum y)" by blast
  with m show ?thesis by auto
qed

lemma trend_ids_strict: "sorted_wrt (<) (map (\<lambda>r. bson_key (row_id r)) (trend_pipeline f ms))"
proof -
  let ?g = "trend_group (filter (match_stage f) ms)"
  have d: "distinct (map row_id ?g)" by (simp add: trend_group_ids)
  have "distinct (map (\<lambda>r. bson_key (row_id r)) ?g)"
    using d by (simp add: distinct_map inj_on_def bson_key_inj)
  then have "distinct (map (\<lambda>r. bson_key (row_id r)) (trend_pipeline f ms))"
    by (simp add: trend_pipeline_def sort_asc_def distinct_map inj_on_def)
  moreover have "sorted (map (\<lambda>r. bson_key (row_id r)) (trend_pipeline f ms))"
    by (simp add: trend_pipeline_def sort_asc_def)
  ultimately show ?thesis by (simp add: strict_sorted_iff)
qed

section \<open>Rating trend: order of the rows\<close>

lemma numbers_all_numeric:
  "\<forall>v\<in>set vs. q_type_number v \<Longrightarrow> map (\<lambda>x. Some (BNum x)) (numbers vs) = vs"
proof (induction vs)
  case Nil show ?case by simp
next
  case (Cons v vs)
  then show ?case by (cases v rule: q_type_number.cases) auto
qed

text \<open>On numeric values \<open>avg\<close> is the sum divided by the number of values.\<close>

lemma avg_is_mean:
  assumes "vs \<noteq> []" and "\<forall>v\<in>set vs. q_type_number v"
  shows "\<exists>xs. vs = map (\<lambda>x. Some (BNum x)) xs \<and> xs \<noteq> [] \<and>
           avg vs = BNum (sum_list xs / of_nat (length xs))"
proof -
  have eq: "map (\<lambda>x. Some (BNum x)) (numbers vs) = vs"
    by (rule numbers_all_numeric) (rule assms(2))
  have ne: "numbers vs \<noteq> []" using eq assms(1) by auto
  have "avg vs = BNum (sum_list (numbers vs) / of_nat (length (numbers vs)))"
    using ne by (simp add: avg_def Let_def)
  with eq ne show ?thesis by (intro exI[of _ "numbers vs"]) simp
qed

lemma trend_rows_by_year:
  "\<exists>ys. map row_id (trend_pipeline f ms) = map BNum ys \<and> sorted_wrt (<) ys \<and>
        set ys = {y. \<exists>m\<in>set ms. match_stage f m \<and> year m = Some (BNum y)} \<and>
        (\<forall>r\<in>set (trend_pipeline f ms).
           movieCount r = length (filter (\<lambda>m. match_stage f m \<and> year m = Some (row_id r)) ms) \<and>
           avgRating r = avg (map imdb_rating (filter (\<lambda>m. match_stage f m \<and> year m = Some (row_id r)) ms)))"
proof -
  let ?rows = "trend_pipeline f ms"
  let ?ys = "map (\<lambda>r. num_of (row_id r)) ?rows"
  have num: "\<exists>y. row_id r = BNum y" if "r \<in> set ?rows" for r
  proof -
    from trend_row_year[OF that] obtain m where "match_stage f m" "year m = Some (row_id r)" by blast
    with match_stage_year[of f m] show ?thesis by auto
  qed
  have num': "row_id r = BNum (num_of (row_id r))" if "r \<in> set ?rows" for r
    using num[OF that] by auto
  have ids: "map row_id ?rows = map BNum ?ys"
    using num' by (simp add: comp_def)
  have keys: "map (\<lambda>r. bson_key (row_id r)) ?rows = map (\<lambda>y. bson_key (BNum y)) ?ys"
    unfolding map_map comp_def by (rule map_cong[OF refl]) (metis num')
  have "sorted_wrt (<) (map (\<lambda>y. bson_key (BNum y)) ?ys)"
    using trend_ids_strict[of f ms] unfolding keys .
  then have srt: "sorted_wrt (<) ?ys"
    by (simp add: sorted_wrt_map)
  have yset: "set ?ys = {y. \<exists>m\<in>set ms. match_stage f m \<and> year m = Some (BNum y)}"
  proof (intro set_eqI iffI)
    fix y assume "y \<in> set ?ys"
    then obtain r where r: "r \<in> set ?rows" "y = num_of (row_id r)" by auto
    from num[OF r(1)] r(2) have "row_id r = BNum y" by auto
    with trend_row_year[OF r(1)] show "y \<in> {y. \<exists>m\<in>set ms. match_stage f m \<and> year m = Some (BNum y)}"
      by auto
  next
    fix y assume "y \<in> {y. \<exists>m\<in>set ms. match_stage f m \<and> year m = Some (BNum y)}"
    then obtain m where m: "m \<in> set ms" "match_stage f m" "year m = Some (BNum y)" by auto
    then have "BNum y \<in> set (map row_id (trend_group (filter (match_stage f) ms)))"
      unfolding trend_group_ids by force
    then obtain r where "r \<in> set ?rows" "row_id r = BNum y"
      by (auto simp: trend_pipeline_set)
    then show "y \<in> set ?ys" by force
  qed
  have rows: "movieCount r = length (filter (\<lambda>m. match_stage f m \<and> year m = Some (row_id r)) ms) \<and>
           avgRating r = avg (map imdb_rating (filter (\<lambda>m. match_stage f m \<and> year m = Some (row_id r)) ms))"
    if "r \<in> set ?rows" for r
  proof -
    from num[OF that] obtain y where y: "row_id r = BNum y" by blast
    have eq: "filter (\<lambda>m. field_value (year m) = row_id r) (filter (match_stage f) ms)
          = filter (\<lambda>m. match_stage f m \<and> year m = Some (row_id r)) ms"
      unfolding filter_filter
    proof (rule filter_cong[OF refl])
      fix m assume "m \<in> set ms"
      show "(match_stage f m \<and> field_value (year m) = row_id r) = (match_stage f m \<and> year m = Some (row_id r))"
        using match_stage_year[of f m] by (auto simp: y)
    qed
    from that have "r = (let b = filter (\<lambda>m. field_value (year m) = row_id r) (filter (match_stage f) ms) in
       \<lparr>row_id = row_id r, avgRating = avg (map imdb_rating b), movieCount = length b\<rparr>)"
      by (simp add: trend_pipeline_set trend_group_row)
    then have "movieCount r = length (filter (\<lambda>m. field_value (year m) = row_id r) (filter (match_stage f) ms))"
      and "avgRating r = avg (map imdb_rating (filter (\<lambda>m. field_value (year m) = row_id r) (filter (match_stage f) ms)))"
      by (metis agg_row.select_convs(3), metis agg_row.select_convs(2))
    then show ?thesis unfolding eq by simp
  qed
  from ids srt yset rows show ?thesis by blast
qed

text \<open>
  The sample store with a second movie of the year 2001, so that one year holds two
  ratings.
\<close>

lemma crowded_trend_rows:
  "trend_pipeline scenario_filter (scenario_movies @ [movie_no_genres]) =
     [\<lparr>row_id = BNum 1994, avgRating = BNum (89 / 10), movieCount = 1\<rparr>,
      \<lparr>row_id = BNum 2001, avgRating = BNum (29 / 4), movieCount = 2\<rparr>]"
  by (simp add: trend_pipeline_def scenario_defs movie_no_genres_def match_stage_def
      trend_group_def group_by_def avg_def sort_asc_def)

text \<open>
  C3. For every filter state and every store, the years of the trend rows are numbers in
  strictly ascending order (so no year occurs twice), and they are exactly the years of
  the movies that pass \<open>match_stage\<close>. Each row carries the number of passing movies
  of its year, and its \<open>avgRating\<close> is the sum of the ratings of those movies, all
  of them numbers, divided by their number.
\<close>

theorem trend_sorted_strictly_by_year:
  "\<exists>ys. map row_id (trend_pipeline f ms) = map BNum ys \<and> sorted_wrt (<) ys \<and>
        set ys = {y. \<exists>m\<in>set ms. match_stage f m \<and> year m = Some (BNum y)} \<and>
        (\<forall>r\<in>set (trend_pipeline f ms).
           movieCount r = length (filter (\<lambda>m. match_stage f m \<and> year m = Some (row_id r)) ms) \<and>
           (\<exists>xs. map imdb_rating (filter (\<lambda>m. match_stage f m \<and> year m = Some (row_id r)) ms) =
                   map (\<lambda>x. Some (BNum x)) xs \<and>
                 xs \<noteq> [] \<and> avgRating r = BNum (sum_list xs / of_nat (length xs))))"
proof -
  from trend_rows_by_year[of f ms] obtain ys where
    ys: "map row_id (trend_pipeline f ms) = map BNum ys" "sorted_wrt (<) ys"
      "set ys = {y. \<exists>m\<in>set ms. match_stage f m \<and> year m = Some (BNum y)}"
    and rows: "\<And>r. r \<in> set (trend_pipeline f ms) \<Longrightarrow>
           movieCount r = length (filter (\<lambda>m. match_stage f m \<and> year m = Some (row_id r)) ms) \<and>
           avgRating r = avg (map imdb_rating (filter (\<lambda>m. match_stage f m \<and> year m = Some (row_id r)) ms))"
    by blast
  have mean: "\<exists>xs. map imdb_rating (filter (\<lambda>m. match_stage f m \<and> year m = Some (row_id r)) ms) =
                   map (\<lambda>x. Some (BNum x)) xs \<and>
                 xs \<noteq> [] \<and> avgRating r = BNum (sum_list xs / of_nat (length xs))"
    if r: "r \<in> set (trend_pipeline f ms)" for r
  proof -
    let ?b = "filter (\<lambda>m. match_stage f m \<and> year m = Some (row_id r)) ms"
    from trend_row_year[OF r] have "?b \<noteq> []" by (auto simp: filter_empty_conv)
    then have ne: "map imdb_rating ?b \<noteq> []" by simp
    have ty: "\<forall>v\<in>set (map imdb_rating ?b). q_type_number v"
      by (auto simp: match_stage_def)
    from avg_is_mean[OF ne ty] rows[OF r] show ?thesis by auto
  qed
  from ys rows mean show ?thesis by blast
qed


theorem trend_sorted_strictly_by_year_witness:
  "trend_pipeline scenario_filter (scenario_movies @ [movie_no_genres]) =
     [\<lparr>row_id = BNum 1994, avgRating = BNum (89 / 10), movieCount = 1\<rparr>,
      \<lparr>row_id = BNum 2001, avgRating = BNum (29 / 4), movieCount = 2\<rparr>] \<and>
   (\<exists>ys. [BNum 1994, BNum 2001] = map BNum ys \<and> sorted_wrt (<) ys) \<and>
   (\<exists>xs. [Some (BNum (13 / 2)), Some (BNum 8)] = map (\<lambda>x. Some (BNum x)) xs \<and> xs \<noteq> [] \<and>
      BNum (29 / 4) = BNum (sum_list xs / of_nat (length xs)))"
proof -
  let ?ms = "scenario_movies @ [movie_no_genres]"
  let ?r = "\<lparr>row_id = BNum 2001, avgRating = BNum (29 / 4), movieCount = 2\<rparr>"
  note all = trend_sorted_strictly_by_year [of scenario_filter ?ms]
  have b: "filter (\<lambda>m. match_stage scenario_filter m \<and> year m = Some (row_id ?r)) ?ms =
      [movie_beta, movie_no_genres]"
    by (simp add: scenario_defs movie_no_genres_def match_stage_def)
  have rt: "map imdb_rating [movie_beta, movie_no_genres] = [Some (BNum (13 / 2)), Some (BNum 8)]"
    by (simp add: movie_beta_def movie_no_genres_def)
  have mem: "?r \<in> set (trend_pipeline scenario_filter ?ms)"
    by (simp add: crowded_trend_rows)
  from all obtain ys where ys: "map row_id (trend_pipeline scenario_filter ?ms) = map BNum ys"
      "sorted_wrt (<) ys"
    by blast
  from ys(1) have h: "[BNum 1994, BNum 2001] = map BNum ys"
    unfolding crowded_trend_rows by simp
  have srt: "\<exists>ys. [BNum 1994, BNum 2001] = map BNum ys \<and> sorted_wrt (<) ys"
    by (rule exI[of _ ys]) (rule conjI[OF h ys(2)])
  from all mem have "\<exists>xs. map imdb_rating
        (filter (\<lambda>m. match_stage scenario_filter m \<and> year m = Some (row_id ?r)) ?ms) =
          map (\<lambda>x. Some (BNum x)) xs \<and> xs \<noteq> [] \<and>
        avgRating ?r = BNum (sum_list xs / of_nat (length xs))"
    by blast
  then have mean: "\<exists>xs. [Some (BNum (13 / 2)), Some (BNum 8)] = map (\<lambda>x. Some (BNum x)) xs \<and>
      xs \<noteq> [] \<and> BNum (29 / 4) = BNum (sum_list xs / of_nat (length xs))"
    unfolding b rt by simp
  from crowded_trend_rows srt mean show ?thesis by (intro conjI) assumption+
qed

section \<open>Key performance indicators\<close>

lemma numbers_filter_type:
  "numbers (map fld (filter (\<lambda>m. q_type_number (fld m)) ms)) = numbers (map fld ms)"
proof (induction ms)
  case Nil show ?case by simp
next
  case (Cons m ms)
  then show ?case by (cases "fld m" rule: q_type_number.cases) auto
qed

lemma numbers_empty_iff:
  "numbers (map fld ms) = [] \<longleftrightarrow> filter (\<lambda>m. q_type_number (fld m)) ms = []"
proof (induction ms)
  case Nil show ?case by simp
next
  case (Cons m ms)
  then show ?case by (cases "fld m" rule: q_type_number.cases) auto
qed

lemma group_by_const:
  "group_by (\<lambda>x. k) xs = (if xs = [] then [] else [(k, xs)])"
proof -
  have "remdups (map (\<lambda>x. k) xs) = (if xs = [] then [] else [k])"
  proof (induction xs)
    case Nil show ?case by simp
  next
    case (Cons x xs)
    then show ?case by (cases xs) auto
  qed
  then show ?thesis by (simp add: group_by_def)
qed

lemma rating_data_eq:
  "rating_data ms = (let ns = numbers (map imdb_rating ms) in
     if ns = [] then [] else [BNum (sum_list ns / of_nat (length ns))])"
  by (simp add: rating_data_def group_by_const avg_def Let_def numbers_filter_type numbers_empty_iff)

lemma and_then_Inr_iff: "and_then x k = Inr v \<longleftrightarrow> (\<exists>a. x = Inr a \<and> k a = Inr v)"
  by (cases x) auto

lemma attempt_Inr_iff: "attempt e q v = Inr w \<longleftrightarrow> fault e q = None \<and> w = v"
  by (auto simp: attempt_def split: option.splits)

lemma kpi_try_avg:
  "kpi_try e = Inr k \<Longrightarrow> avg_rating k = (case rating_data (movies (db e)) of [] \<Rightarrow> BNum 0 | r # _ \<Rightarrow> r)"
  by (auto simp: kpi_try_def and_then_Inr_iff attempt_Inr_iff)

text \<open>
  C6. When no movie holds a numeric rating (as in an empty store), the KPI block's
  \<open>avg_rating\<close> is 0, whether or not the block raised; when some movie does and the
  block did not raise, \<open>avg_rating\<close> is the sum of the numeric ratings divided by
  their number.
\<close>

theorem kpi_avg_rating:
  "(numbers (map imdb_rating (movies (db e))) = [] \<longrightarrow> avg_rating (snd (kpi_panel e)) = BNum 0) \<and>
   (numbers (map imdb_rating (movies (db e))) \<noteq> [] \<and> fst (kpi_panel e) = None \<longrightarrow>
      avg_rating (snd (kpi_panel e)) =
        BNum (sum_list (numbers (map imdb_rating (movies (db e)))) /
              of_nat (length (numbers (map imdb_rating (movies (db e)))))))"
proof (cases "kpi_try e")
  case (Inl msg)
  then show ?thesis by (simp add: kpi_panel_def)
next
  case (Inr k)
  from kpi_try_avg[OF Inr] Inr show ?thesis
    by (simp add: kpi_panel_def rating_data_eq Let_def)
qed

theorem kpi_avg_rating_witness:
  "avg_rating (snd (kpi_panel empty_env)) = BNum 0 \<and>
   avg_rating (snd (kpi_panel scenario_env)) = BNum (77 / 10)"
proof
  have "numbers (map imdb_rating (movies (db empty_env))) = []"
    by (simp add: empty_env_def)
  with kpi_avg_rating [of empty_env] show "avg_rating (snd (kpi_panel empty_env)) = BNum 0"
    by blast
next
  have n: "numbers (map imdb_rating (movies (db scenario_env))) = [89 / 10, 13 / 2]"
    by (simp add: scenario_env_def scenario_defs)
  have "fst (kpi_panel scenario_env) = None"
    by (simp add: kpi_panel_def kpi_try_def scenario_env_def attempt_def count_if_listed_def
        scenario_store_def)
  with kpi_avg_rating [of scenario_env] n
  show "avg_rating (snd (kpi_panel scenario_env)) = BNum (77 / 10)"
    by simp
qed

section \<open>Search with an empty text\<close>

text \<open>
  C7. With the empty search text the search panel does not run and shows nothing, whatever
  the store and the faults; with a non-empty text whose query returns no row it shows the
  warning that no movies were found, and a non-empty text never leaves the panel not run,
  so the two states differ.
\<close>

theorem search_empty_text_not_run:
  "search_panel e f [] n = NotRun \<and>
   (q \<noteq> [] \<and> search_query_run e f q n = Inr [] \<longrightarrow>
      search_panel e f q n = ShowWarning ''No movies found matching your search criteria.'') \<and>
   (q \<noteq> [] \<longrightarrow> search_panel e f q n \<noteq> NotRun)"
  by (auto simp: search_panel_def split: sum.splits)

theorem search_empty_text_not_run_witness:
  "search_panel scenario_env scenario_filter [] 20 = NotRun \<and>
   search_panel scenario_env scenario_filter ''zzz'' 20 =
     ShowWarning ''No movies found matching your search criteria.''"
proof -
  have "search_query_run scenario_env scenario_filter ''zzz'' 20 = Inr []"
    by (simp add: search_query_run_def compile_regex_def ordinary_def regex_meta_def
        scenario_env_def scenario_defs attempt_def find_movies_def cursor_limit_def lower_def)
  with search_empty_text_not_run [of scenario_env scenario_filter 20 "''zzz''"]
  show ?thesis by simp
qed

section \<open>A failure of the KPI block\<close>

text \<open>
  C9. When the KPI block raises, the four KPI values are all set to 0 and the error is
  shown; the Most Discussed panel, gated on the same \<open>comments_count\<close>, then does not
  run, also when the store holds comments.
\<close>

theorem kpi_failure_zeroes_and_suppresses:
  assumes "kpi_try e = Inl msg"
  shows "kpi_values (dashboard e f q n) =
           \<lparr>movies_count = 0, users_count = 0, comments_count = 0, avg_rating = BNum 0\<rparr> \<and>
         kpi_error (dashboard e f q n) = Some (''Error calculating metrics: '' @ msg) \<and>
         discussion_out (dashboard e f q n) = NotRun"
  using assms by (simp add: dashboard_def kpi_panel_def discussion_panel_def Let_def)

theorem kpi_failure_zeroes_and_suppresses_witness:
  "comments (db kpi_fault_env) = Some [\<lparr>c_id = 1, movie_id = 2\<rparr>] \<and>
   kpi_values (dashboard kpi_fault_env scenario_filter [] 20) =
     \<lparr>movies_count = 0, users_count = 0, comments_count = 0, avg_rating = BNum 0\<rparr> \<and>
   kpi_error (dashboard kpi_fault_env scenario_filter [] 20) =
     Some ''Error calculating metrics: timeout'' \<and>
   discussion_out (dashboard kpi_fault_env scenario_filter [] 20) = NotRun"
proof -
  have "kpi_try kpi_fault_env = Inl ''timeout''"
    by (simp add: kpi_try_def kpi_fault_env_def attempt_def count_if_listed_def scenario_store_def)
  from kpi_failure_zeroes_and_suppresses [OF this, of scenario_filter "[]" 20]
  show ?thesis by (simp add: kpi_fault_env_def scenario_store_def)
qed

section \<open>Buckets of the grouping pipelines\<close>

lemma sum_list_lower: "\<forall>x\<in>set ns. lo \<le> x \<Longrightarrow> of_nat (length ns) * lo \<le> sum_list (ns :: rat list)"
  by (induction ns) (auto simp: algebra_simps)

lemma sum_list_upper: "\<forall>x\<in>set ns. x \<le> hi \<Longrightarrow> sum_list (ns :: rat list) \<le> of_nat (length ns) * hi"
  by (induction ns) (auto simp: algebra_simps)

lemma mean_lower:
  assumes "ns \<noteq> []" "\<forall>x\<in>set ns. lo \<le> x"
  shows "lo \<le> sum_list ns / of_nat (length (ns :: rat list))"
proof -
  have "0 < (of_nat (length ns) :: rat)" using assms(1) by simp
  then show ?thesis using sum_list_lower[OF assms(2)]
    by (simp add: pos_le_divide_eq mult.commute)
qed

lemma mean_upper:
  assumes "ns \<noteq> []" "\<forall>x\<in>set ns. x \<le> hi"
  shows "sum_list ns / of_nat (length (ns :: rat list)) \<le> hi"
proof -
  have "0 < (of_nat (length ns) :: rat)" using assms(1) by simp
  then show ?thesis using sum_list_upper[OF assms(2)]
    by (simp add: pos_divide_le_eq mult.commute)
qed

lemma set_numbers: "set (numbers vs) = {x. Some (BNum x) \<in> set vs}"
proof (induction vs)
  case Nil show ?case by simp
next
  case (Cons v vs)
  then show ?case by (cases v rule: q_type_number.cases) auto
qed

lemma numbers_nonempty: "vs \<noteq> [] \<Longrightarrow> \<forall>v\<in>set vs. q_type_number v \<Longrightarrow> numbers vs \<noteq> []"
  by (cases vs; cases "hd vs" rule: q_type_number.cases) auto

text \<open>The average over a non-empty bucket of movies that passed the filter.\<close>

lemma avg_of_matched:
  assumes ne: "b \<noteq> []" and ok: "\<forall>m\<in>set b. match_stage f m"
  shows "\<exists>a. avg (map imdb_rating b) = BNum a \<and> rating_filter f \<le> a \<and>
             ((\<forall>m\<in>set b. \<forall>x. imdb_rating m = Some (BNum x) \<longrightarrow> x \<le> hi) \<longrightarrow> a \<le> hi)"
proof -
  let ?vs = "map imdb_rating b"
  let ?ns = "numbers ?vs"
  have ty: "\<forall>v\<in>set ?vs. q_type_number v"
    using ok by (auto simp: match_stage_def)
  have nne: "?ns \<noteq> []" using numbers_nonempty[OF _ ty] ne by simp
  have lo: "\<forall>x\<in>set ?ns. rating_filter f \<le> x"
  proof
    fix x assume "x \<in> set ?ns"
    then obtain m where m: "m \<in> set b" "imdb_rating m = Some (BNum x)"
      by (auto simp: set_numbers)
    with ok match_stage_rating[of f m] show "rating_filter f \<le> x" by auto
  qed
  have hi: "\<forall>x\<in>set ?ns. x \<le> hi" if "\<forall>m\<in>set b. \<forall>x. imdb_rating m = Some (BNum x) \<longrightarrow> x \<le> hi"
    using that by (auto simp: set_numbers)
  have "avg ?vs = BNum (sum_list ?ns / of_nat (length ?ns))"
    using nne by (simp add: avg_def Let_def)
  with mean_lower[OF nne lo] mean_upper[OF nne hi] show ?thesis by blast
qed

lemma unwind_genres_set:
  "(m, g) \<in> set (unwind_genres ms) \<longleftrightarrow> m \<in> set ms \<and> (\<exists>gs. genres m = Some gs \<and> g \<in> set gs)"
proof (induction ms)
  case Nil show ?case by simp
next
  case (Cons a ms)
  show ?case
  proof (cases "genres a")
    case None
    with Cons show ?thesis by auto
  next
    case (Some gs)
    with Cons show ?thesis by auto
  qed
qed

lemma genre_group_row:
  "r \<in> set (genre_group us) \<longleftrightarrow>
     row_id r \<in> snd ` set us \<and>
     r = (let b = filter (\<lambda>u. snd u = row_id r) us in
       \<lparr>row_id = row_id r, avgRating = avg (map (\<lambda>u. imdb_rating (fst u)) b), movieCount = length b\<rparr>)"
  (is "?l \<longleftrightarrow> ?r")
proof
  assume ?l
  then obtain k b where kb: "(k, b) \<in> set (group_by snd us)"
    and r: "r = \<lparr>row_id = k, avgRating = avg (map (\<lambda>u. imdb_rating (fst u)) b), movieCount = length b\<rparr>"
    by (auto simp: genre_group_def)
  from kb have "k \<in> snd ` set us" "b = filter (\<lambda>u. snd u = k) us"
    by (simp_all add: group_by_bucket)
  with r show ?r by (simp add: Let_def)
next
  assume ?r
  then have "(row_id r, filter (\<lambda>u. snd u = row_id r) us) \<in> set (group_by snd us)"
    by (simp add: group_by_bucket)
  moreover from \<open>?r\<close> have "r = (\<lambda>(k, b). \<lparr>row_id = k, avgRating = avg (map (\<lambda>u. imdb_rating (fst u)) b),
      movieCount = length b\<rparr>) (row_id r, filter (\<lambda>u. snd u = row_id r) us)"
    by (simp add: Let_def)
  ultimately show ?l unfolding genre_group_def set_map by (rule rev_image_eqI)
qed

lemma genre_pipeline_set:
  "set (genre_pipeline f ms) =
     {r \<in> set (genre_group (unwind_genres (filter (match_stage f) ms))). row_id r \<noteq> BNull}"
  by (auto simp: genre_pipeline_def sort_desc_def)

lemma trend_row_bucket:
  assumes "r \<in> set (trend_pipeline f ms)"
  shows "\<exists>b. b \<noteq> [] \<and> set b \<subseteq> {m \<in> set ms. match_stage f m} \<and>
             avgRating r = avg (map imdb_rating b) \<and> movieCount r = length b \<and>
             (\<forall>m\<in>set b. field_value (year m) = row_id r)"
proof -
  let ?b = "filter (\<lambda>m. field_value (year m) = row_id r) (filter (match_stage f) ms)"
  from assms have k: "row_id r \<in> (\<lambda>m. field_value (year m)) ` set (filter (match_stage f) ms)"
    and r: "r = \<lparr>row_id = row_id r, avgRating = avg (map imdb_rating ?b), movieCount = length ?b\<rparr>"
    by (simp_all add: trend_pipeline_set trend_group_row Let_def)
  from k have "?b \<noteq> []" by (auto simp: filter_empty_conv)
  moreover have "set ?b \<subseteq> {m \<in> set ms. match_stage f m}" by auto
  moreover from r have "avgRating r = avg (map imdb_rating ?b)" "movieCount r = length ?b"
    by (metis agg_row.select_convs(2), metis agg_row.select_convs(3))
  ultimately show ?thesis by (intro exI[of _ ?b]) auto
qed

lemma genre_row_bucket:
  assumes "r \<in> set (genre_pipeline f ms)"
  shows "\<exists>b. b \<noteq> [] \<and> set b \<subseteq> {m \<in> set ms. match_stage f m} \<and>
             avgRating r = avg (map imdb_rating b) \<and> movieCount r = length b \<and>
             (\<forall>m\<in>set b. \<exists>gs. genres m = Some gs \<and> row_id r \<in> set gs)"
proof -
  let ?us = "unwind_genres (filter (match_stage f) ms)"
  let ?b = "filter (\<lambda>u. snd u = row_id r) ?us"
  from assms have k: "row_id r \<in> snd ` set ?us"
    and r: "r = \<lparr>row_id = row_id r, avgRating = avg (map (\<lambda>u. imdb_rating (fst u)) ?b), movieCount = length ?b\<rparr>"
    by (simp_all add: genre_pipeline_set genre_group_row Let_def)
  from k have "map fst ?b \<noteq> []" by (force simp: filter_empty_conv)
  moreover have "set (map fst ?b) \<subseteq> {m \<in> set ms. match_stage f m}"
    by (auto simp: unwind_genres_set)
  moreover from r have "avgRating r = avg (map imdb_rating (map fst ?b))" "movieCount r = length (map fst ?b)"
    unfolding map_map comp_def length_map by (metis agg_row.select_convs(2), metis agg_row.select_convs(3))
  moreover have "\<forall>m\<in>set (map fst ?b). \<exists>gs. genres m = Some gs \<and> row_id r \<in> set gs"
    by (auto simp: unwind_genres_set)
  ultimately show ?thesis by (intro exI[of _ "map fst ?b"]) blast
qed

lemma scenario_genre_rows:
  "genre_pipeline scenario_filter scenario_movies =
     [\<lparr>row_id = BStr ''Drama'', avgRating = BNum (77 / 10), movieCount = 2\<rparr>,
      \<lparr>row_id = BStr ''Comedy'', avgRating = BNum (13 / 2), movieCount = 1\<rparr>]"
  by (simp add: genre_pipeline_def scenario_defs match_stage_def genre_group_def group_by_def
      avg_def sort_desc_def)

lemma scenario_trend_rows:
  "trend_pipeline scenario_filter scenario_movies =
     [\<lparr>row_id = BNum 1994, avgRating = BNum (89 / 10), movieCount = 1\<rparr>,
      \<lparr>row_id = BNum 2001, avgRating = BNum (13 / 2), movieCount = 1\<rparr>]"
  by (simp add: trend_pipeline_def scenario_defs match_stage_def trend_group_def group_by_def
      avg_def sort_asc_def)

section \<open>Bounds of the average rating\<close>

text \<open>
  C10, as stated, at a concrete input: the sample store with a third movie, of the year
  2000 and the genre Horror, whose stored rating is 12, and the filter with floor 0. The
  trend row of 2000 and the genre row of Horror carry the average 12, which is not
  between the floor and 10. \<open>match_stage\<close> bounds the rating from below only.
\<close>

theorem avg_rating_above_ten_counterexample:
  "trend_pipeline scenario_filter (scenario_movies @ [movie_twelve]) =
     [\<lparr>row_id = BNum 1994, avgRating = BNum (89 / 10), movieCount = 1\<rparr>,
      \<lparr>row_id = BNum 2000, avgRating = BNum 12, movieCount = 1\<rparr>,
      \<lparr>row_id = BNum 2001, avgRating = BNum (13 / 2), movieCount = 1\<rparr>] \<and>
   genre_pipeline scenario_filter (scenario_movies @ [movie_twelve]) =
     [\<lparr>row_id = BStr ''Drama'', avgRating = BNum (77 / 10), movieCount = 2\<rparr>,
      \<lparr>row_id = BStr ''Comedy'', avgRating = BNum (13 / 2), movieCount = 1\<rparr>,
      \<lparr>row_id = BStr ''Horror'', avgRating = BNum 12, movieCount = 1\<rparr>] \<and>
   \<not> (12 :: rat) \<le> 10"
  by (simp add: trend_pipeline_def genre_pipeline_def movie_twelve_def scenario_defs
      match_stage_def trend_group_def genre_group_def group_by_def avg_def sort_asc_def
      sort_desc_def)

text \<open>
  C10, amended. For every filter state and store, the \<open>avgRating\<close> of every row of the
  trend and genre pipelines is a number not below the filter's \<open>rating_filter\<close>; it is
  at most 10 whenever every numeric rating in the store is at most 10.
\<close>

theorem avg_rating_at_least_floor:
  assumes "r \<in> set (trend_pipeline f ms) \<or> r \<in> set (genre_pipeline f ms)"
  shows "\<exists>a. avgRating r = BNum a \<and> rating_filter f \<le> a \<and>
           ((\<forall>m\<in>set ms. \<forall>x. imdb_rating m = Some (BNum x) \<longrightarrow> x \<le> 10) \<longrightarrow> a \<le> 10)"
proof -
  from assms trend_row_bucket[of r f ms] genre_row_bucket[of r f ms]
  obtain b where b: "b \<noteq> []" "set b \<subseteq> {m \<in> set ms. match_stage f m}"
      "avgRating r = avg (map imdb_rating b)"
    by blast
  then have ok: "\<forall>m\<in>set b. match_stage f m" by auto
  have sub: "m \<in> set ms" if "m \<in> set b" for m using that b(2) by auto
  from avg_of_matched[OF b(1) ok, of 10]
  obtain a where a: "avg (map imdb_rating b) = BNum a" "rating_filter f \<le> a"
      "(\<forall>m\<in>set b. \<forall>x. imdb_rating m = Some (BNum x) \<longrightarrow> x \<le> 10) \<longrightarrow> a \<le> 10"
    by blast
  from a(3) sub have "(\<forall>m\<in>set ms. \<forall>x. imdb_rating m = Some (BNum x) \<longrightarrow> x \<le> 10) \<longrightarrow> a \<le> 10"
    by blast
  with a(1,2) b(3) show ?thesis by auto
qed

theorem avg_rating_at_least_floor_witness:
  "\<lparr>row_id = BStr ''Drama'', avgRating = BNum (77 / 10), movieCount = 2\<rparr>
     \<in> set (genre_pipeline scenario_filter scenario_movies) \<and>
   rating_filter scenario_filter \<le> 77 / 10 \<and> (77 / 10 :: rat) \<le> 10"
proof -
  let ?r = "\<lparr>row_id = BStr ''Drama'', avgRating = BNum (77 / 10), movieCount = 2\<rparr>"
  have mem: "?r \<in> set (genre_pipeline scenario_filter scenario_movies)"
    by (simp add: scenario_genre_rows)
  have ub: "\<forall>m\<in>set scenario_movies. \<forall>x. imdb_rating m = Some (BNum x) \<longrightarrow> x \<le> 10"
    by (simp add: scenario_defs)
  from avg_rating_at_least_floor [of ?r scenario_filter scenario_movies] mem ub
  have "rating_filter scenario_filter \<le> 77 / 10 \<and> (77 / 10 :: rat) \<le> 10"
    by auto
  with mem show ?thesis by blast
qed

section \<open>Rows and the filter predicate\<close>

lemma match_stage_is_spec_predicate:
  "match_stage f m \<longleftrightarrow> spec_filter_predicate f (year m) (imdb_rating m) (genres m)"
proof -
  have y: "q_gte lo (year m) \<and> q_lte hi (year m) \<longleftrightarrow> (case year m of Some (BNum n) \<Rightarrow> lo \<le> n \<and> n \<le> hi | _ \<Rightarrow> False)"
    for lo hi by (cases "year m" rule: q_type_number.cases) auto
  have r: "q_gte lo (imdb_rating m) \<and> q_type_number (imdb_rating m) \<longleftrightarrow> (case imdb_rating m of Some (BNum x) \<Rightarrow> lo \<le> x | _ \<Rightarrow> False)"
    for lo by (cases "imdb_rating m" rule: q_type_number.cases) auto
  have g: "q_in sel (genres m) \<longleftrightarrow> (case genres m of Some l \<Rightarrow> list_ex (\<lambda>g. g \<in> BStr ` set sel) l | None \<Rightarrow> False)"
    for sel by (cases "genres m") auto
  show ?thesis
    unfolding match_stage_def spec_filter_predicate_def
    using y[of "of_int (fst (year_range f))" "of_int (snd (year_range f))"] r[of "rating_filter f"]
      g[of "selected_genres f"]
    by auto
qed

lemma discussion_row_source:
  assumes "r \<in> set (discussion_pipeline f s)"
  shows "\<exists>m\<in>set (movies s). match_stage f m \<and>
           r = disc_project (m, length (lookup_comments (comments s) m))"
proof -
  from assms obtain p where p: "p \<in> set (take 15 (disc_sorted f s))" "r = disc_project p"
    by (auto simp: discussion_pipeline_def)
  from p(1) have "p \<in> set (disc_sorted f s)" by (rule in_set_takeD)
  then have "match_stage f (fst p)" "fst p \<in> set (movies s)"
    "snd p = length (lookup_comments (comments s) (fst p))"
    by (auto simp: disc_sorted_def sort_desc_def)
  with p(2) show ?thesis by (cases p) auto
qed

lemma discussion_rows_ok:
  assumes "r \<in> set (discussion_pipeline f s)"
  shows "spec_filter_predicate f (d_year r) (d_rating r) (d_genres r)"
proof -
  from discussion_row_source[OF assms] obtain m where
    m: "match_stage f m" "r = disc_project (m, length (lookup_comments (comments s) m))"
    by blast
  from m(2) have "d_year r = year m" "d_rating r = imdb_rating m" "d_genres r = genres m"
    by (simp_all add: disc_project_def)
  with m(1) show ?thesis by (simp add: match_stage_is_spec_predicate)
qed

lemma trend_rows_ok:
  assumes "r \<in> set (trend_pipeline f ms)"
  shows "spec_filter_predicate (f\<lparr>selected_genres := []\<rparr>) (Some (row_id r)) (Some (avgRating r)) None \<and>
     (\<exists>b. b \<noteq> [] \<and> movieCount r = length b \<and> avgRating r = avg (map imdb_rating b) \<and>
        (\<forall>m\<in>set b. m \<in> set ms \<and> year m = Some (row_id r) \<and>
           spec_filter_predicate f (year m) (imdb_rating m) (genres m)))"
proof -
  from trend_row_bucket[OF assms] obtain b where b: "b \<noteq> []"
      "set b \<subseteq> {m \<in> set ms. match_stage f m}" "avgRating r = avg (map imdb_rating b)"
      "movieCount r = length b" "\<forall>m\<in>set b. field_value (year m) = row_id r"
    by blast
  have ok: "\<forall>m\<in>set b. match_stage f m" using b(2) by auto
  have yr: "year m = Some (row_id r)" if "m \<in> set b" for m
    using that ok b(5) match_stage_year[of f m] by auto
  from b(1) obtain m0 where m0: "m0 \<in> set b" by (cases b) auto
  from match_stage_year[of f m0] ok m0 yr[OF m0]
  obtain y where y: "row_id r = BNum y" "of_int (fst (year_range f)) \<le> y"
      "y \<le> of_int (snd (year_range f))"
    by auto
  from avg_of_matched[OF b(1) ok, of 0] b(3)
  obtain a where a: "avgRating r = BNum a" "rating_filter f \<le> a" by auto
  have "spec_filter_predicate (f\<lparr>selected_genres := []\<rparr>) (Some (row_id r)) (Some (avgRating r)) None"
    using y a by (simp add: spec_filter_predicate_def)
  moreover have "\<forall>m\<in>set b. m \<in> set ms \<and> year m = Some (row_id r) \<and>
           spec_filter_predicate f (year m) (imdb_rating m) (genres m)"
    using b(2) yr by (auto simp: match_stage_is_spec_predicate)
  ultimately show ?thesis using b(1,3,4) by blast
qed

lemma genre_rows_ok:
  assumes "r \<in> set (genre_pipeline f ms)"
  shows "(\<exists>a. avgRating r = BNum a \<and> rating_filter f \<le> a) \<and>
     (\<exists>b. b \<noteq> [] \<and> movieCount r = length b \<and> avgRating r = avg (map imdb_rating b) \<and>
        (\<forall>m\<in>set b. m \<in> set ms \<and> (\<exists>gs. genres m = Some gs \<and> row_id r \<in> set gs) \<and>
           spec_filter_predicate f (year m) (imdb_rating m) (genres m)))"
proof -
  from genre_row_bucket[OF assms] obtain b where b: "b \<noteq> []"
      "set b \<subseteq> {m \<in> set ms. match_stage f m}" "avgRating r = avg (map imdb_rating b)"
      "movieCount r = length b" "\<forall>m\<in>set b. \<exists>gs. genres m = Some gs \<and> row_id r \<in> set gs"
    by blast
  have ok: "\<forall>m\<in>set b. match_stage f m" using b(2) by auto
  from avg_of_matched[OF b(1) ok, of 0] b(3)
  have "\<exists>a. avgRating r = BNum a \<and> rating_filter f \<le> a" by auto
  moreover have "\<forall>m\<in>set b. m \<in> set ms \<and> (\<exists>gs. genres m = Some gs \<and> row_id r \<in> set gs) \<and>
           spec_filter_predicate f (year m) (imdb_rating m) (genres m)"
    using b(2,5) by (auto simp: match_stage_is_spec_predicate)
  ultimately show ?thesis using b(1,3,4) by blast
qed

lemma comedy_genre_rows:
  "genre_pipeline comedy_filter scenario_movies =
     [\<lparr>row_id = BStr ''Drama'', avgRating = BNum (13 / 2), movieCount = 1\<rparr>,
      \<lparr>row_id = BStr ''Comedy'', avgRating = BNum (13 / 2), movieCount = 1\<rparr>]"
  by (simp add: genre_pipeline_def scenario_defs comedy_filter_def match_stage_def genre_group_def
      group_by_def avg_def sort_desc_def)

lemma comedy_discussion_rows:
  "discussion_pipeline comedy_filter scenario_store =
     [\<lparr>d_id = 2, d_title = Some (BStr ''Beta''), d_year = Some (BNum 2001),
       d_rating = Some (BNum (13 / 2)), comment_count = 1,
       d_genres = Some [BStr ''Drama'', BStr ''Comedy'']\<rparr>]"
  by (simp add: discussion_pipeline_def disc_sorted_def scenario_defs comedy_filter_def
      match_stage_def sort_desc_def lookup_comments_def disc_project_def)

lemma comedy_trend_rows:
  "trend_pipeline comedy_filter scenario_movies =
     [\<lparr>row_id = BNum 2001, avgRating = BNum (13 / 2), movieCount = 1\<rparr>]"
  by (simp add: trend_pipeline_def scenario_defs comedy_filter_def match_stage_def trend_group_def
      group_by_def avg_def sort_asc_def)

text \<open>
  C1, as stated, at a concrete input: with the genre Comedy selected, the movie Beta
  (2001, Drama and Comedy, 6.5) passes the filter, \<open>$unwind\<close> splits it after the
  match, and the genre pipeline returns a Drama row. That row's genre is not a selected
  one, so the row, taken with the year and rating it aggregates, does not satisfy the
  predicate.
\<close>

theorem genre_row_outside_selection_counterexample:
  "genre_pipeline comedy_filter scenario_movies =
     [\<lparr>row_id = BStr ''Drama'', avgRating = BNum (13 / 2), movieCount = 1\<rparr>,
      \<lparr>row_id = BStr ''Comedy'', avgRating = BNum (13 / 2), movieCount = 1\<rparr>] \<and>
   \<not> spec_filter_predicate comedy_filter (Some (BNum 2001)) (Some (BNum (13 / 2)))
       (Some [BStr ''Drama''])"
proof (rule conjI)
  show "genre_pipeline comedy_filter scenario_movies =
     [\<lparr>row_id = BStr ''Drama'', avgRating = BNum (13 / 2), movieCount = 1\<rparr>,
      \<lparr>row_id = BStr ''Comedy'', avgRating = BNum (13 / 2), movieCount = 1\<rparr>]"
    by (rule comedy_genre_rows)
  show "\<not> spec_filter_predicate comedy_filter (Some (BNum 2001)) (Some (BNum (13 / 2)))
       (Some [BStr ''Drama''])"
    by (simp add: spec_filter_predicate_def comedy_filter_def)
qed

text \<open>
  C1, amended. For every filter state and store: every row of the discussion pipeline
  satisfies the filter predicate on its own year, rating and genres; every trend row has
  its year in the range and a numeric average not below the floor; every genre row has
  a numeric average not below the floor; and every trend or genre row aggregates a
  non-empty list of stored movies, each of which satisfies the whole predicate and has
  the row's year, respectively carries the row's genre. The genre of a genre row itself
  need not be a selected one.
\<close>

theorem rows_satisfy_filter:
  "(\<forall>r\<in>set (discussion_pipeline f s).
      spec_filter_predicate f (d_year r) (d_rating r) (d_genres r)) \<and>
   (\<forall>r\<in>set (trend_pipeline f (movies s)).
      spec_filter_predicate (f\<lparr>selected_genres := []\<rparr>) (Some (row_id r)) (Some (avgRating r)) None \<and>
      (\<exists>b. b \<noteq> [] \<and> movieCount r = length b \<and> avgRating r = avg (map imdb_rating b) \<and>
         (\<forall>m\<in>set b. m \<in> set (movies s) \<and> year m = Some (row_id r) \<and>
            spec_filter_predicate f (year m) (imdb_rating m) (genres m)))) \<and>
   (\<forall>r\<in>set (genre_pipeline f (movies s)).
      (\<exists>a. avgRating r = BNum a \<and> rating_filter f \<le> a) \<and>
      (\<exists>b. b \<noteq> [] \<and> movieCount r = length b \<and> avgRating r = avg (map imdb_rating b) \<and>
         (\<forall>m\<in>set b. m \<in> set (movies s) \<and> (\<exists>gs. genres m = Some gs \<and> row_id r \<in> set gs) \<and>
            spec_filter_predicate f (year m) (imdb_rating m) (genres m))))"
  using discussion_rows_ok[of _ f s] trend_rows_ok[of _ f "movies s"] genre_rows_ok[of _ f "movies s"]
  by blast

theorem rows_satisfy_filter_witness:
  "discussion_pipeline comedy_filter scenario_store \<noteq> [] \<and>
   trend_pipeline comedy_filter (movies scenario_store) \<noteq> [] \<and>
   genre_pipeline comedy_filter (movies scenario_store) \<noteq> [] \<and>
   spec_filter_predicate comedy_filter (Some (BNum 2001)) (Some (BNum (13 / 2)))
     (Some [BStr ''Drama'', BStr ''Comedy'']) \<and>
   spec_filter_predicate (comedy_filter\<lparr>selected_genres := []\<rparr>) (Some (BNum 2001))
     (Some (BNum (13 / 2))) None \<and>
   (\<exists>a. avgRating \<lparr>row_id = BStr ''Drama'', avgRating = BNum (13 / 2), movieCount = 1\<rparr> = BNum a \<and>
        rating_filter comedy_filter \<le> a)"
proof -
  have m: "movies scenario_store = scenario_movies" by (simp add: scenario_store_def)
  note all = rows_satisfy_filter [of comedy_filter scenario_store, unfolded m]
  have d: "spec_filter_predicate comedy_filter (Some (BNum 2001)) (Some (BNum (13 / 2)))
     (Some [BStr ''Drama'', BStr ''Comedy''])"
    using all unfolding comedy_discussion_rows by simp
  have t: "spec_filter_predicate (comedy_filter\<lparr>selected_genres := []\<rparr>) (Some (BNum 2001))
     (Some (BNum (13 / 2))) None"
    using all unfolding comedy_trend_rows by simp
  have g: "\<exists>a. avgRating \<lparr>row_id = BStr ''Drama'', avgRating = BNum (13 / 2), movieCount = 1\<rparr> = BNum a \<and>
        rating_filter comedy_filter \<le> a"
    using all unfolding comedy_genre_rows by simp
  from d t g show ?thesis
    unfolding m by (simp add: comedy_discussion_rows comedy_trend_rows comedy_genre_rows)
qed

section \<open>Genre performance: fan-out and counts\<close>

lemma sum_list_insort_key: "sum_list (map f (insort_key k x xs)) = f x + sum_list (map (f :: 'a \<Rightarrow> nat) xs)"
  by (induction xs) auto

lemma sum_list_sort_key: "sum_list (map f (sort_key k xs)) = sum_list (map (f :: 'a \<Rightarrow> nat) xs)"
  by (induction xs) (auto simp: sum_list_insort_key)

lemma sum_indicator_distinct:
  "distinct ks \<Longrightarrow> (\<Sum>k\<leftarrow>ks. if a = k then 1 else 0 :: nat) = (if a \<in> set ks then 1 else 0)"
  by (induction ks) auto

lemma sum_bucket_lengths:
  "distinct ks \<Longrightarrow>
     (\<Sum>k\<leftarrow>ks. length (filter (\<lambda>x. key x = k) xs)) = length (filter (\<lambda>x. key x \<in> set ks) xs)"
proof (induction xs)
  case Nil then show ?case by simp
next
  case (Cons x xs)
  have "(\<Sum>k\<leftarrow>ks. length (filter (\<lambda>x. key x = k) (x # xs))) =
        (\<Sum>k\<leftarrow>ks. (if key x = k then 1 else 0) + length (filter (\<lambda>x. key x = k) xs))"
    by (rule arg_cong[where f=sum_list], rule map_cong) auto
  also have "\<dots> = (\<Sum>k\<leftarrow>ks. if key x = k then 1 else 0) + (\<Sum>k\<leftarrow>ks. length (filter (\<lambda>x. key x = k) xs))"
    by (simp add: sum_list_addf)
  also have "\<dots> = (if key x \<in> set ks then 1 else 0) + length (filter (\<lambda>x. key x \<in> set ks) xs)"
    using Cons by (simp add: sum_indicator_distinct)
  finally show ?case by simp
qed

lemma genre_pipeline_counts:
  "map movieCount (filter (\<lambda>r. row_id r \<noteq> BNull) (genre_group us)) =
     map (\<lambda>k. length (filter (\<lambda>u. snd u = k) us)) (filter (\<lambda>k. k \<noteq> BNull) (remdups (map snd us)))"
  by (simp add: genre_group_def group_by_def filter_map comp_def)

lemma genre_count_total:
  "sum_list (map movieCount (genre_pipeline f ms)) =
     length (filter (\<lambda>u. snd u \<noteq> BNull) (unwind_genres (filter (match_stage f) ms)))"
proof -
  let ?us = "unwind_genres (filter (match_stage f) ms)"
  let ?ks = "filter (\<lambda>k. k \<noteq> BNull) (remdups (map snd ?us))"
  have "sum_list (map movieCount (genre_pipeline f ms)) =
        (\<Sum>k\<leftarrow>?ks. length (filter (\<lambda>u. snd u = k) ?us))"
    by (simp add: genre_pipeline_def sort_desc_def sum_list_sort_key genre_pipeline_counts)
  also have "\<dots> = length (filter (\<lambda>u. snd u \<in> set ?ks) ?us)"
    by (rule sum_bucket_lengths) simp
  also have "filter (\<lambda>u. snd u \<in> set ?ks) ?us = filter (\<lambda>u. snd u \<noteq> BNull) ?us"
    by (rule filter_cong) auto
  finally show ?thesis .
qed

lemma length_filter_unwind:
  "length (filter (\<lambda>u. P (snd u)) (unwind_genres ms)) =
     (\<Sum>m\<leftarrow>ms. length (filter P (genre_elems m)))"
  by (induction ms) (auto simp: genre_elems_def filter_map comp_def split: option.splits)

lemma count_list_length_filter: "count_list xs a = length (filter (\<lambda>x. x = a) xs)"
  by (induction xs) auto


lemma count_nonempty_le:
  "length (filter (\<lambda>m. list_ex P (h m)) ms) \<le> (\<Sum>m\<leftarrow>ms. length (filter P (h m)))"
proof (induction ms)
  case Nil show ?case by simp
next
  case (Cons m ms)
  have "list_ex P (h m) \<Longrightarrow> 1 \<le> length (filter P (h m))"
    by (cases "filter P (h m)") (auto simp: list_ex_iff filter_empty_conv)
  with Cons show ?case by auto
qed

lemma genre_ids_distinct: "distinct (map row_id (genre_pipeline f ms))"
proof -
  let ?g = "genre_group (unwind_genres (filter (match_stage f) ms))"
  have "map row_id ?g = remdups (map snd (unwind_genres (filter (match_stage f) ms)))"
    by (simp add: genre_group_def group_by_def comp_def)
  then have "distinct (map row_id ?g)" by simp
  then have "distinct (map row_id (filter (\<lambda>r. row_id r \<noteq> BNull) ?g))"
    by (rule distinct_map_filter)
  then show ?thesis
    by (simp add: genre_pipeline_def sort_desc_def distinct_map)
qed

lemma genre_row_count:
  assumes "r \<in> set (genre_pipeline f ms)"
  shows "movieCount r = (\<Sum>m\<leftarrow>filter (match_stage f) ms. count_list (genre_elems m) (row_id r))"
proof -
  let ?us = "unwind_genres (filter (match_stage f) ms)"
  from assms have "r = \<lparr>row_id = row_id r,
      avgRating = avg (map (\<lambda>u. imdb_rating (fst u)) (filter (\<lambda>u. snd u = row_id r) ?us)),
      movieCount = length (filter (\<lambda>u. snd u = row_id r) ?us)\<rparr>"
    by (simp add: genre_pipeline_set genre_group_row Let_def)
  then have "movieCount r = length (filter (\<lambda>u. snd u = row_id r) ?us)"
    by (metis agg_row.select_convs(3))
  then show ?thesis
    by (simp only: length_filter_unwind [of "\<lambda>g. g = row_id r"] count_list_length_filter)
qed

lemma genre_row_exists:
  assumes "m \<in> set ms" "match_stage f m" "g \<in> set (genre_elems m)" "g \<noteq> BNull"
  shows "\<exists>r\<in>set (genre_pipeline f ms). row_id r = g"
proof -
  let ?us = "unwind_genres (filter (match_stage f) ms)"
  let ?b = "filter (\<lambda>u. snd u = g) ?us"
  let ?r = "\<lparr>row_id = g, avgRating = avg (map (\<lambda>u. imdb_rating (fst u)) ?b), movieCount = length ?b\<rparr>"
  from assms(3) obtain gs where "genres m = Some gs" "g \<in> set gs"
    by (cases "genres m") (auto simp: genre_elems_def)
  with assms(1,2) have "(m, g) \<in> set ?us"
    by (simp add: unwind_genres_set)
  then have "g \<in> snd ` set ?us" by force
  then have "?r \<in> set (genre_group ?us)"
    by (simp add: genre_group_row Let_def)
  with assms(4) have "?r \<in> set (genre_pipeline f ms)"
    by (simp add: genre_pipeline_set)
  then show ?thesis by force
qed

text \<open>
  C5, as stated, at a concrete input: a store with two movies that pass the filter, one
  with the genre Drama and one with an empty genre list. \<open>$unwind\<close> drops the second,
  the genre pipeline returns the Drama row alone, and the sum of \<open>movieCount\<close> (1) is
  below the number of movies that pass the filter (2).
\<close>

theorem genre_count_below_movies_counterexample:
  "filter (match_stage scenario_filter) [movie_alpha, movie_no_genres] =
     [movie_alpha, movie_no_genres] \<and>
   genre_pipeline scenario_filter [movie_alpha, movie_no_genres] =
     [\<lparr>row_id = BStr ''Drama'', avgRating = BNum (89 / 10), movieCount = 1\<rparr>] \<and>
   \<not> length (filter (match_stage scenario_filter) [movie_alpha, movie_no_genres])
       \<le> sum_list (map movieCount (genre_pipeline scenario_filter [movie_alpha, movie_no_genres]))"
  by (simp add: genre_pipeline_def movie_no_genres_def movie_alpha_def scenario_filter_def
      match_stage_def genre_group_def group_by_def avg_def sort_desc_def)

text \<open>
  C5, amended. For every filter state and store: the sum of \<open>movieCount\<close> over the
  genre rows is the number of non-null genre entries of the movies that pass the filter,
  so it is at least the number of passing movies that have a non-null genre entry; there
  is one row per genre; no row has the null key; the \<open>movieCount\<close> of a row is the
  number of occurrences of its genre in the genre lists of the passing movies; and every
  non-null genre entry of a passing movie has a row, so a movie with genres A and B
  counts in both rows.
\<close>

theorem genre_fan_out:
  "sum_list (map movieCount (genre_pipeline f ms)) =
     (\<Sum>m\<leftarrow>filter (match_stage f) ms. length (filter (\<lambda>g. g \<noteq> BNull) (genre_elems m))) \<and>
   length (filter (\<lambda>m. list_ex (\<lambda>g. g \<noteq> BNull) (genre_elems m)) (filter (match_stage f) ms))
     \<le> sum_list (map movieCount (genre_pipeline f ms)) \<and>
   distinct (map row_id (genre_pipeline f ms)) \<and>
   (\<forall>r\<in>set (genre_pipeline f ms). row_id r \<noteq> BNull \<and>
      movieCount r = (\<Sum>m\<leftarrow>filter (match_stage f) ms. count_list (genre_elems m) (row_id r))) \<and>
   (\<forall>m\<in>set ms. \<forall>g\<in>set (genre_elems m). match_stage f m \<and> g \<noteq> BNull \<longrightarrow>
      (\<exists>r\<in>set (genre_pipeline f ms). row_id r = g))"
proof -
  have total: "sum_list (map movieCount (genre_pipeline f ms)) =
     (\<Sum>m\<leftarrow>filter (match_stage f) ms. length (filter (\<lambda>g. g \<noteq> BNull) (genre_elems m)))"
    by (simp only: genre_count_total length_filter_unwind [of "\<lambda>g. g \<noteq> BNull"])
  have "length (filter (\<lambda>m. list_ex (\<lambda>g. g \<noteq> BNull) (genre_elems m)) (filter (match_stage f) ms))
     \<le> sum_list (map movieCount (genre_pipeline f ms))"
    unfolding total by (rule count_nonempty_le)
  moreover have "\<forall>r\<in>set (genre_pipeline f ms). row_id r \<noteq> BNull \<and>
      movieCount r = (\<Sum>m\<leftarrow>filter (match_stage f) ms. count_list (genre_elems m) (row_id r))"
    using genre_row_count[of _ f ms] by (auto simp: genre_pipeline_set)
  moreover have "\<forall>m\<in>set ms. \<forall>g\<in>set (genre_elems m). match_stage f m \<and> g \<noteq> BNull \<longrightarrow>
      (\<exists>r\<in>set (genre_pipeline f ms). row_id r = g)"
    using genre_row_exists[of _ ms f] by blast
  ultimately show ?thesis using total genre_ids_distinct[of f ms] by blast
qed

theorem genre_fan_out_witness:
  "genre_pipeline scenario_filter scenario_movies =
     [\<lparr>row_id = BStr ''Drama'', avgRating = BNum (77 / 10), movieCount = 2\<rparr>,
      \<lparr>row_id = BStr ''Comedy'', avgRating = BNum (13 / 2), movieCount = 1\<rparr>] \<and>
   movie_beta \<in> set scenario_movies \<and> match_stage scenario_filter movie_beta \<and>
   genre_elems movie_beta = [BStr ''Drama'', BStr ''Comedy''] \<and>
   BStr ''Drama'' \<in> set (map row_id (genre_pipeline scenario_filter scenario_movies)) \<and>
   BStr ''Comedy'' \<in> set (map row_id (genre_pipeline scenario_filter scenario_movies)) \<and>
   BNull \<notin> set (map row_id (genre_pipeline scenario_filter scenario_movies)) \<and>
   length (filter (match_stage scenario_filter) scenario_movies) = 2 \<and>
   2 \<le> sum_list (map movieCount (genre_pipeline scenario_filter scenario_movies))"
proof -
  note all = genre_fan_out [of scenario_filter scenario_movies]
  have mem: "movie_beta \<in> set scenario_movies" by (simp add: scenario_movies_def)
  have ok: "match_stage scenario_filter movie_beta"
    by (simp add: match_stage_def scenario_filter_def movie_beta_def)
  have ge: "genre_elems movie_beta = [BStr ''Drama'', BStr ''Comedy'']"
    by (simp add: genre_elems_def movie_beta_def)
  have flt: "filter (match_stage scenario_filter) scenario_movies = scenario_movies"
    by (simp add: match_stage_def scenario_defs)
  have two: "filter (\<lambda>m. list_ex (\<lambda>g. g \<noteq> BNull) (genre_elems m)) scenario_movies = scenario_movies"
    by (simp add: genre_elems_def scenario_defs)
  from all mem ok ge
  have a0: "\<exists>r\<in>set (genre_pipeline scenario_filter scenario_movies). row_id r = BStr ''Drama''"
    and b0: "\<exists>r\<in>set (genre_pipeline scenario_filter scenario_movies). row_id r = BStr ''Comedy''"
    by auto
  from a0 have a: "BStr ''Drama'' \<in> set (map row_id (genre_pipeline scenario_filter scenario_movies))"
    by force
  from b0 have b: "BStr ''Comedy'' \<in> set (map row_id (genre_pipeline scenario_filter scenario_movies))"
    by force
  from all have c: "BNull \<notin> set (map row_id (genre_pipeline scenario_filter scenario_movies))"
    by auto
  from all have d: "2 \<le> sum_list (map movieCount (genre_pipeline scenario_filter scenario_movies))"
    unfolding flt two by (simp add: scenario_movies_def)
  have len: "length (filter (match_stage scenario_filter) scenario_movies) = 2"
    unfolding flt by (simp add: scenario_movies_def)
  from scenario_genre_rows mem ok ge a b c len d show ?thesis
    by (intro conjI) assumption+
qed

section \<open>Most discussed movies: the outer join\<close>

lemma lookup_comments_eq:
  "lookup_comments (comments s) m = filter (\<lambda>c. movie_id c = m_id m) (stored_comments s)"
  by (simp add: lookup_comments_def stored_comments_def split: option.splits)

lemma disc_sorted_set:
  "set (disc_sorted f s) =
     {(m, length (lookup_comments (comments s) m)) | m. m \<in> set (movies s) \<and> match_stage f m}"
  by (auto simp: disc_sorted_def sort_desc_def)

lemma disc_sorted_length:
  "length (disc_sorted f s) = length (filter (match_stage f) (movies s))"
proof -
  have "filter (\<lambda>p. match_stage f (fst p))
          (map (\<lambda>m. (m, length (lookup_comments (comments s) m))) (movies s)) =
        map (\<lambda>m. (m, length (lookup_comments (comments s) m))) (filter (match_stage f) (movies s))"
    by (simp add: filter_map comp_def)
  then show ?thesis by (simp add: disc_sorted_def sort_desc_def)
qed

lemma disc_sorted_desc: "sorted_wrt (\<lambda>p q. snd q \<le> snd p) (disc_sorted f s)"
proof -
  have "sorted (map (\<lambda>p. - int (snd p)) (disc_sorted f s))"
    by (simp add: disc_sorted_def sort_desc_def)
  then show ?thesis by (simp add: sorted_map sorted_wrt_iff_nth_less)
qed

lemma sorted_wrt_take_prefix: "sorted_wrt P xs \<Longrightarrow> sorted_wrt P (take n xs)"
  by (metis append_take_drop_id sorted_wrt_append)

lemma scenario_discussion_rows:
  "discussion_pipeline scenario_filter scenario_store =
     [\<lparr>d_id = 2, d_title = Some (BStr ''Beta''), d_year = Some (BNum 2001),
       d_rating = Some (BNum (13 / 2)), comment_count = 1,
       d_genres = Some [BStr ''Drama'', BStr ''Comedy'']\<rparr>,
      \<lparr>d_id = 1, d_title = Some (BStr ''Alpha''), d_year = Some (BNum 1994),
       d_rating = Some (BNum (89 / 10)), comment_count = 0,
       d_genres = Some [BStr ''Drama'']\<rparr>]"
  by (simp add: discussion_pipeline_def disc_sorted_def scenario_defs
      match_stage_def sort_desc_def lookup_comments_def disc_project_def)

text \<open>
  C4. For every filter state and store, the discussion pipeline returns the first 15 of the
  movies that pass the filter, in descending order of \<open>comment_count\<close>, and as many rows
  as there are passing movies up to 15: the join drops none. The \<open>comment_count\<close> of a
  row is the number of all stored comments whose \<open>movie_id\<close> is the row's \<open>_id\<close>,
  whatever the filter. A passing movie that no comment refers to has its row, with
  \<open>comment_count\<close> 0, among the sorted rows before the truncation, and in the output
  whenever at most 15 movies pass the filter.
\<close>

theorem discussion_keeps_uncommented_movies:
  "length (discussion_pipeline f s) = min 15 (length (filter (match_stage f) (movies s))) \<and>
   sorted_wrt (\<lambda>a b. comment_count b \<le> comment_count a) (discussion_pipeline f s) \<and>
   (\<forall>r\<in>set (discussion_pipeline f s).
      comment_count r = length (filter (\<lambda>c. movie_id c = d_id r) (stored_comments s))) \<and>
   (\<forall>m\<in>set (movies s).
      match_stage f m \<and> filter (\<lambda>c. movie_id c = m_id m) (stored_comments s) = [] \<longrightarrow>
        disc_project (m, 0) \<in> set (map disc_project (disc_sorted f s)) \<and>
        (length (filter (match_stage f) (movies s)) \<le> 15 \<longrightarrow>
           disc_project (m, 0) \<in> set (discussion_pipeline f s)))"
proof -
  have len: "length (discussion_pipeline f s) = min 15 (length (filter (match_stage f) (movies s)))"
    by (simp add: discussion_pipeline_def disc_sorted_length min.commute)
  have "sorted_wrt (\<lambda>p q. snd q \<le> snd p) (take 15 (disc_sorted f s))"
    by (rule sorted_wrt_take_prefix) (rule disc_sorted_desc)
  then have srt: "sorted_wrt (\<lambda>a b. comment_count b \<le> comment_count a) (discussion_pipeline f s)"
    by (simp add: discussion_pipeline_def sorted_wrt_map disc_project_def case_prod_beta)
  have cnt: "comment_count r = length (filter (\<lambda>c. movie_id c = d_id r) (stored_comments s))"
    if "r \<in> set (discussion_pipeline f s)" for r
  proof -
    from discussion_row_source[OF that] obtain m where
      "r = disc_project (m, length (lookup_comments (comments s) m))" by blast
    then show ?thesis by (simp add: disc_project_def lookup_comments_eq)
  qed
  have keep: "disc_project (m, 0) \<in> set (map disc_project (disc_sorted f s)) \<and>
        (length (filter (match_stage f) (movies s)) \<le> 15 \<longrightarrow>
           disc_project (m, 0) \<in> set (discussion_pipeline f s))"
    if m: "m \<in> set (movies s)" "match_stage f m"
      "filter (\<lambda>c. movie_id c = m_id m) (stored_comments s) = []" for m
  proof -
    from m have "(m, 0) \<in> set (disc_sorted f s)"
      by (auto simp: disc_sorted_set lookup_comments_eq)
    then have a: "disc_project (m, 0) \<in> set (map disc_project (disc_sorted f s))" by simp
    have "take 15 (disc_sorted f s) = disc_sorted f s"
      if "length (filter (match_stage f) (movies s)) \<le> 15"
      using that by (simp add: disc_sorted_length)
    with a show ?thesis by (simp add: discussion_pipeline_def)
  qed
  from len srt cnt keep show ?thesis by blast
qed

theorem discussion_keeps_uncommented_movies_witness:
  "movie_alpha \<in> set (movies scenario_store) \<and> match_stage scenario_filter movie_alpha \<and>
   filter (\<lambda>c. movie_id c = m_id movie_alpha) (stored_comments scenario_store) = [] \<and>
   length (filter (match_stage scenario_filter) (movies scenario_store)) \<le> 15 \<and>
   disc_project (movie_alpha, 0) \<in> set (discussion_pipeline scenario_filter scenario_store) \<and>
   comment_count (disc_project (movie_alpha, 0)) = 0"
proof -
  have mem: "movie_alpha \<in> set (movies scenario_store)" by (simp add: scenario_defs)
  have ok: "match_stage scenario_filter movie_alpha"
    by (simp add: match_stage_def scenario_filter_def movie_alpha_def)
  have none: "filter (\<lambda>c. movie_id c = m_id movie_alpha) (stored_comments scenario_store) = []"
    by (simp add: stored_comments_def scenario_store_def movie_alpha_def)
  have few: "length (filter (match_stage scenario_filter) (movies scenario_store)) \<le> 15"
    by (simp add: scenario_store_def scenario_movies_def)
  from discussion_keeps_uncommented_movies [of scenario_filter scenario_store] mem ok none few
  have "disc_project (movie_alpha, 0) \<in> set (discussion_pipeline scenario_filter scenario_store)"
    by blast
  moreover have "comment_count (disc_project (movie_alpha, 0)) = 0"
    by (simp add: disc_project_def)
  ultimately show ?thesis using mem ok none few by (intro conjI) assumption+
qed

section \<open>Title search\<close>












lemma scenario_all_pass: "filter (match_stage scenario_filter) scenario_movies = scenario_movies"
  by (simp add: match_stage_def scenario_defs)





section \<open>Failures and empty results of the panels\<close>

lemma with_fault_simps:
  "db (with_fault e Q x) = db e"
  "regex_ext (with_fault e Q x) = regex_ext e"
  "fault (with_fault e Q x) Q' = (if Q = Q' then x else fault e Q')"
  by (simp_all add: with_fault_def)

lemma attempt_other: "Q \<noteq> Q' \<Longrightarrow> attempt (with_fault e Q x) Q' v = attempt e Q' v"
  by (simp add: attempt_def with_fault_simps)

lemma trend_panel_other: "Q \<noteq> QTrend \<Longrightarrow> trend_panel (with_fault e Q x) f = trend_panel e f"
  by (simp add: trend_panel_def attempt_other with_fault_simps)

lemma genre_panel_other: "Q \<noteq> QGenre \<Longrightarrow> genre_panel (with_fault e Q x) f = genre_panel e f"
  by (simp add: genre_panel_def attempt_other with_fault_simps)

lemma discussion_panel_other:
  "Q \<noteq> QDiscussion \<Longrightarrow> discussion_panel (with_fault e Q x) f cc = discussion_panel e f cc"
  by (simp add: discussion_panel_def attempt_other with_fault_simps)

lemma compile_regex_other: "compile_regex (with_fault e Q x) q = compile_regex e q"
  by (simp add: compile_regex_def with_fault_simps split: option.splits)

lemma search_panel_other: "Q \<noteq> QSearch \<Longrightarrow> search_panel (with_fault e Q x) f q n = search_panel e f q n"
  by (simp add: search_panel_def search_query_run_def compile_regex_other attempt_other with_fault_simps)

lemma count_if_listed_other:
  "Q \<noteq> QListCollections \<Longrightarrow> Q \<noteq> Q' \<Longrightarrow>
     count_if_listed (with_fault e Q x) Q' coll = count_if_listed e Q' coll"
  by (cases coll) (simp_all add: count_if_listed_def attempt_def with_fault_simps split: option.splits)

lemma kpi_try_other: "Q \<notin> set kpi_queries \<Longrightarrow> kpi_try (with_fault e Q x) = kpi_try e"
  by (simp add: kpi_try_def count_if_listed_other kpi_queries_def attempt_other with_fault_simps)

lemma kpi_panel_other: "Q \<notin> set kpi_queries \<Longrightarrow> kpi_panel (with_fault e Q x) = kpi_panel e"
  by (simp add: kpi_panel_def kpi_try_other)

lemma dashboard_fields:
  "kpi_error (dashboard e f q n) = fst (kpi_panel e)"
  "kpi_values (dashboard e f q n) = snd (kpi_panel e)"
  "trend_out (dashboard e f q n) = trend_panel e f"
  "genre_out (dashboard e f q n) = genre_panel e f"
  "discussion_out (dashboard e f q n) = discussion_panel e f (comments_count (snd (kpi_panel e)))"
  "search_out (dashboard e f q n) = search_panel e f q n"
  "year_slider (dashboard e f q n) = slider_bounds e"
  "genre_options (dashboard e f q n) = genre_list e"
  by (simp_all add: dashboard_def Let_def)

lemma failures_reported:
  "(fault e QTrend = Some msg \<longrightarrow>
      trend_out (dashboard e f q n) = ShowError (''Error generating trend chart: '' @ msg)) \<and>
   (fault e QGenre = Some msg \<longrightarrow>
      genre_out (dashboard e f q n) = ShowError (''Error generating genre analysis: '' @ msg)) \<and>
   (fault e QDiscussion = Some msg \<and> 0 < comments_count (kpi_values (dashboard e f q n)) \<longrightarrow>
      discussion_out (dashboard e f q n) = ShowError (''Error generating comments analysis: '' @ msg)) \<and>
   (q \<noteq> [] \<and> search_query_run e f q n = Inl msg \<longrightarrow>
      search_out (dashboard e f q n) = ShowError (''Search error: '' @ msg)) \<and>
   (kpi_try e = Inl msg \<longrightarrow>
      kpi_error (dashboard e f q n) = Some (''Error calculating metrics: '' @ msg))"
  by (simp add: dashboard_fields trend_panel_def genre_panel_def discussion_panel_def
      search_panel_def kpi_panel_def attempt_def)

lemma failures_local:
  "(Q \<noteq> QTrend \<longrightarrow>
      trend_out (dashboard (with_fault e Q x) f q n) = trend_out (dashboard e f q n)) \<and>
   (Q \<noteq> QGenre \<longrightarrow>
      genre_out (dashboard (with_fault e Q x) f q n) = genre_out (dashboard e f q n)) \<and>
   (Q \<noteq> QSearch \<longrightarrow>
      search_out (dashboard (with_fault e Q x) f q n) = search_out (dashboard e f q n)) \<and>
   (Q \<noteq> QDiscussion \<and> Q \<notin> set kpi_queries \<longrightarrow>
      discussion_out (dashboard (with_fault e Q x) f q n) = discussion_out (dashboard e f q n)) \<and>
   (Q \<notin> set kpi_queries \<longrightarrow>
      kpi_values (dashboard (with_fault e Q x) f q n) = kpi_values (dashboard e f q n) \<and>
      kpi_error (dashboard (with_fault e Q x) f q n) = kpi_error (dashboard e f q n))"
  by (simp add: dashboard_fields trend_panel_other genre_panel_other search_panel_other
      discussion_panel_other kpi_panel_other)

lemma empty_results_not_errors:
  "(fault e QTrend = None \<and> trend_pipeline f (movies (db e)) = [] \<longrightarrow>
      trend_out (dashboard e f q n) = ShowInfo ''No data available for the selected filters.'') \<and>
   (fault e QGenre = None \<and> genre_pipeline f (movies (db e)) = [] \<longrightarrow>
      genre_out (dashboard e f q n) = ShowWarning ''No genre data available for current filters.'') \<and>
   (fault e QDiscussion = None \<and> discussion_pipeline f (db e) = [] \<and>
      0 < comments_count (kpi_values (dashboard e f q n)) \<longrightarrow>
      discussion_out (dashboard e f q n) =
        ShowInfo ''No comment data available for selected filters.'') \<and>
   (q \<noteq> [] \<and> search_query_run e f q n = Inr [] \<longrightarrow>
      search_out (dashboard e f q n) =
        ShowWarning ''No movies found matching your search criteria.'')"
  by (simp add: dashboard_fields trend_panel_def genre_panel_def discussion_panel_def
      search_panel_def attempt_def)


lemma failures_swallowed_or_spread:
  "(fault e QYearStats = Some msg \<longrightarrow> year_slider (dashboard e f q n) = (1900, 2025)) \<and>
   (fault e QGenreList = Some msg \<longrightarrow> genre_options (dashboard e f q n) = []) \<and>
   (Q = QYearStats \<or> Q = QGenreList \<longrightarrow>
      errors_shown (dashboard (with_fault e Q x) f q n) = errors_shown (dashboard e f q n)) \<and>
   (kpi_try e = Inl msg \<longrightarrow> discussion_out (dashboard e f q n) = NotRun)"
proof (intro conjI impI)
  assume "fault e QYearStats = Some msg"
  then show "year_slider (dashboard e f q n) = (1900, 2025)"
    by (simp add: dashboard_fields slider_bounds_def attempt_def)
next
  assume "fault e QGenreList = Some msg"
  then show "genre_options (dashboard e f q n) = []"
    by (simp add: dashboard_fields genre_list_def attempt_def)
next
  assume "Q = QYearStats \<or> Q = QGenreList"
  then have "Q \<noteq> QTrend" "Q \<noteq> QGenre" "Q \<noteq> QSearch" "Q \<noteq> QDiscussion" "Q \<notin> set kpi_queries"
    by (auto simp: kpi_queries_def)
  then show "errors_shown (dashboard (with_fault e Q x) f q n) = errors_shown (dashboard e f q n)"
    by (simp add: errors_shown_def dashboard_fields trend_panel_other genre_panel_other
        search_panel_other discussion_panel_other kpi_panel_other)
next
  assume "kpi_try e = Inl msg"
  then show "discussion_out (dashboard e f q n) = NotRun"
    by (simp add: dashboard_fields kpi_panel_def discussion_panel_def)
qed

lemma scenario_kpi_values:
  "kpi_panel scenario_env =
     (None, \<lparr>movies_count = 2, users_count = 0, comments_count = 1, avg_rating = BNum (77 / 10)\<rparr>)"
  by (simp add: kpi_panel_def kpi_try_def scenario_env_def scenario_defs attempt_def
      count_if_listed_def rating_data_def group_by_def avg_def)

lemma kpi_fault_values:
  "kpi_panel kpi_fault_env =
     (Some ''Error calculating metrics: timeout'',
      \<lparr>movies_count = 0, users_count = 0, comments_count = 0, avg_rating = BNum 0\<rparr>)"
  by (simp add: kpi_panel_def kpi_try_def kpi_fault_env_def scenario_store_def attempt_def
      count_if_listed_def)

text \<open>
  C8, as stated, at concrete inputs. First, the sample store holds a comment and the
  discussion query does not fail, yet when only the KPI average query fails the Most
  Discussed panel does not run at all, while without that failure it renders its rows:
  the failure of one aggregation stops another panel. Second, when the two sidebar
  aggregations fail, the year slider falls back to 1900-2025 and the genre options to
  none, and the page shows no error message: these failures are swallowed.
\<close>

theorem kpi_failure_stops_discussion_counterexample:
  "fault kpi_fault_env QDiscussion = None \<and>
   comments (db kpi_fault_env) = Some [\<lparr>c_id = 1, movie_id = 2\<rparr>] \<and>
   discussion_out (dashboard scenario_env scenario_filter [] 20) =
     Rendered (discussion_pipeline scenario_filter scenario_store) \<and>
   discussion_out (dashboard kpi_fault_env scenario_filter [] 20) = NotRun \<and>
   year_slider (dashboard scenario_env scenario_filter [] 20) = (1994, 2001) \<and>
   year_slider (dashboard sidebar_fault_env scenario_filter [] 20) = (1900, 2025) \<and>
   genre_options (dashboard sidebar_fault_env scenario_filter [] 20) = [] \<and>
   errors_shown (dashboard sidebar_fault_env scenario_filter [] 20) = []"
proof (intro conjI)
  show "fault kpi_fault_env QDiscussion = None" by (simp add: kpi_fault_env_def)
  show "comments (db kpi_fault_env) = Some [\<lparr>c_id = 1, movie_id = 2\<rparr>]"
    by (simp add: kpi_fault_env_def scenario_store_def)
  show "discussion_out (dashboard scenario_env scenario_filter [] 20) =
      Rendered (discussion_pipeline scenario_filter scenario_store)"
    by (simp add: dashboard_fields scenario_kpi_values discussion_panel_def attempt_def
        scenario_discussion_rows) (simp add: scenario_env_def scenario_discussion_rows)
  show "discussion_out (dashboard kpi_fault_env scenario_filter [] 20) = NotRun"
    by (simp add: dashboard_fields kpi_fault_values discussion_panel_def)
  show "year_slider (dashboard scenario_env scenario_filter [] 20) = (1994, 2001)"
    by (simp add: dashboard_fields slider_bounds_def year_stats_def min_acc_def max_acc_def
        group_by_def attempt_def scenario_env_def scenario_defs py_int_def)
  show "year_slider (dashboard sidebar_fault_env scenario_filter [] 20) = (1900, 2025)"
    by (simp add: dashboard_fields slider_bounds_def attempt_def sidebar_fault_env_def
        with_fault_def)
  show "genre_options (dashboard sidebar_fault_env scenario_filter [] 20) = []"
    by (simp add: dashboard_fields genre_list_def attempt_def sidebar_fault_env_def
        with_fault_def)
  have k: "kpi_panel sidebar_fault_env = kpi_panel scenario_env"
    by (simp add: sidebar_fault_env_def kpi_panel_other kpi_queries_def)
  have t: "trend_panel sidebar_fault_env scenario_filter = Rendered (trend_pipeline scenario_filter scenario_movies)"
    by (simp add: sidebar_fault_env_def trend_panel_other)
       (simp add: trend_panel_def attempt_def scenario_env_def scenario_store_def scenario_trend_rows)
  have g: "genre_panel sidebar_fault_env scenario_filter = Rendered (genre_pipeline scenario_filter scenario_movies)"
    by (simp add: sidebar_fault_env_def genre_panel_other)
       (simp add: genre_panel_def attempt_def scenario_env_def scenario_store_def scenario_genre_rows)
  have d: "discussion_panel sidebar_fault_env scenario_filter (Suc 0) = Rendered (discussion_pipeline scenario_filter scenario_store)"
    by (simp add: sidebar_fault_env_def discussion_panel_other)
       (simp add: discussion_panel_def attempt_def scenario_env_def scenario_discussion_rows)
  show "errors_shown (dashboard sidebar_fault_env scenario_filter [] 20) = []"
    by (simp add: errors_shown_def dashboard_fields k scenario_kpi_values t g d search_panel_def)
qed


text \<open>
  C8, amended. A failure of the trend, genre, discussion or search query is shown by its
  own panel as an error message carrying the exception's text (for the discussion panel,
  when it runs), and a failure of the KPI block is shown with its text. Changing whether
  one query fails leaves the output of every other panel as it was, with one exception:
  the discussion panel also depends on the queries of the KPI block, and when that block
  raises the discussion panel does not run. An empty result of a query that did not
  fail is shown as an information or warning message, not as an error. A failure of a
  sidebar query puts the default bounds 1900-2025, respectively no genre option, in
  place of the result, and changing whether a sidebar query fails leaves the error
  messages of the page as they were: it shows none.
\<close>

theorem panel_failures_are_local:
  "((fault e QTrend = Some msg \<longrightarrow>
      trend_out (dashboard e f q n) = ShowError (''Error generating trend chart: '' @ msg)) \<and>
   (fault e QGenre = Some msg \<longrightarrow>
      genre_out (dashboard e f q n) = ShowError (''Error generating genre analysis: '' @ msg)) \<and>
   (fault e QDiscussion = Some msg \<and> 0 < comments_count (kpi_values (dashboard e f q n)) \<longrightarrow>
      discussion_out (dashboard e f q n) = ShowError (''Error generating comments analysis: '' @ msg)) \<and>
   (q \<noteq> [] \<and> search_query_run e f q n = Inl msg \<longrightarrow>
      search_out (dashboard e f q n) = ShowError (''Search error: '' @ msg)) \<and>
   (kpi_try e = Inl msg \<longrightarrow>
      kpi_error (dashboard e f q n) = Some (''Error calculating metrics: '' @ msg))) \<and>
   ((Q \<noteq> QTrend \<longrightarrow>
      trend_out (dashboard (with_fault e Q x) f q n) = trend_out (dashboard e f q n)) \<and>
   (Q \<noteq> QGenre \<longrightarrow>
      genre_out (dashboard (with_fault e Q x) f q n) = genre_out (dashboard e f q n)) \<and>
   (Q \<noteq> QSearch \<longrightarrow>
      search_out (dashboard (with_fault e Q x) f q n) = search_out (dashboard e f q n)) \<and>
   (Q \<noteq> QDiscussion \<and> Q \<notin> set kpi_queries \<longrightarrow>
      discussion_out (dashboard (with_fault e Q x) f q n) = discussion_out (dashboard e f q n)) \<and>
   (Q \<notin> set kpi_queries \<longrightarrow>
      kpi_values (dashboard (with_fault e Q x) f q n) = kpi_values (dashboard e f q n) \<and>
      kpi_error (dashboard (with_fault e Q x) f q n) = kpi_error (dashboard e f q n))) \<and>
   ((fault e QTrend = None \<and> trend_pipeline f (movies (db e)) = [] \<longrightarrow>
      trend_out (dashboard e f q n) = ShowInfo ''No data available for the selected filters.'') \<and>
   (fault e QGenre = None \<and> genre_pipeline f (movies (db e)) = [] \<longrightarrow>
      genre_out (dashboard e f q n) = ShowWarning ''No genre data available for current filters.'') \<and>
   (fault e QDiscussion = None \<and> discussion_pipeline f (db e) = [] \<and>
      0 < comments_count (kpi_values (dashboard e f q n)) \<longrightarrow>
      discussion_out (dashboard e f q n) =
        ShowInfo ''No comment data available for selected filters.'') \<and>
   (q \<noteq> [] \<and> search_query_run e f q n = Inr [] \<longrightarrow>
      search_out (dashboard e f q n) =
        ShowWarning ''No movies found matching your search criteria.'')) \<and>
   ((fault e QYearStats = Some msg \<longrightarrow> year_slider (dashboard e f q n) = (1900, 2025)) \<and>
   (fault e QGenreList = Some msg \<longrightarrow> genre_options (dashboard e f q n) = []) \<and>
   (Q = QYearStats \<or> Q = QGenreList \<longrightarrow>
      errors_shown (dashboard (with_fault e Q x) f q n) = errors_shown (dashboard e f q n)) \<and>
   (kpi_try e = Inl msg \<longrightarrow> discussion_out (dashboard e f q n) = NotRun))"
  using failures_reported [of e msg f q n] failures_local [of Q e x f q n]
    empty_results_not_errors [of e f q n] failures_swallowed_or_spread [of e msg f q n Q x]
  by blast


theorem panel_failures_are_local_witness:
  "trend_out (dashboard trend_fault_env scenario_filter ''zzz'' 20) =
     ShowError ''Error generating trend chart: timeout'' \<and>
   genre_out (dashboard trend_fault_env scenario_filter ''zzz'' 20) =
     Rendered (genre_pipeline scenario_filter scenario_movies) \<and>
   trend_out (dashboard scenario_env strict_filter ''zzz'' 20) =
     ShowInfo ''No data available for the selected filters.'' \<and>
   search_out (dashboard scenario_env scenario_filter ''zzz'' 20) =
     ShowWarning ''No movies found matching your search criteria.'' \<and>
   year_slider (dashboard sidebar_fault_env scenario_filter ''zzz'' 20) = (1900, 2025) \<and>
   genre_options (dashboard sidebar_fault_env scenario_filter ''zzz'' 20) = [] \<and>
   errors_shown (dashboard (with_fault scenario_env QYearStats (Some ''timeout''))
       scenario_filter ''zzz'' 20) =
     errors_shown (dashboard scenario_env scenario_filter ''zzz'' 20) \<and>
   discussion_out (dashboard kpi_fault_env scenario_filter ''zzz'' 20) = NotRun"
proof (intro conjI)
  have ft: "fault trend_fault_env QTrend = Some ''timeout''"
    by (simp add: trend_fault_env_def with_fault_def)
  note a1 = panel_failures_are_local
    [where e = trend_fault_env and msg = "''timeout''" and f = scenario_filter and q = "''zzz''"
       and n = 20, THEN conjunct1, THEN conjunct1, THEN mp, OF ft]
  from a1 show "trend_out (dashboard trend_fault_env scenario_filter ''zzz'' 20) =
     ShowError ''Error generating trend chart: timeout''"
    by simp
next
  have g: "genre_out (dashboard scenario_env scenario_filter ''zzz'' 20) =
      Rendered (genre_pipeline scenario_filter scenario_movies)"
    by (simp add: dashboard_fields genre_panel_def attempt_def scenario_env_def scenario_store_def
        scenario_genre_rows)
  have ne: "QTrend \<noteq> QGenre" by simp
  note b2 = panel_failures_are_local
    [where e = scenario_env and Q = QTrend and x = "Some ''timeout''" and f = scenario_filter
       and q = "''zzz''" and n = 20, THEN conjunct2, THEN conjunct1, THEN conjunct2,
       THEN conjunct1, THEN mp, OF ne]
  from b2 g show "genre_out (dashboard trend_fault_env scenario_filter ''zzz'' 20) =
     Rendered (genre_pipeline scenario_filter scenario_movies)"
    unfolding trend_fault_env_def by simp
next
  have nf: "fault scenario_env QTrend = None" by (simp add: scenario_env_def)
  have none: "trend_pipeline strict_filter (movies (db scenario_env)) = []"
    by (simp add: trend_pipeline_def strict_filter_def match_stage_def scenario_env_def
        scenario_defs trend_group_def group_by_def sort_asc_def)
  show "trend_out (dashboard scenario_env strict_filter ''zzz'' 20) =
     ShowInfo ''No data available for the selected filters.''"
    by (rule panel_failures_are_local
      [where e = scenario_env and f = strict_filter and q = "''zzz''" and n = 20,
        THEN conjunct2, THEN conjunct2, THEN conjunct1, THEN conjunct1, THEN mp,
        OF conjI [OF nf none]])
next
  have q: "''zzz'' \<noteq> []" by simp
  have r: "search_query_run scenario_env scenario_filter ''zzz'' 20 = Inr []"
    by (simp add: search_query_run_def compile_regex_def ordinary_def regex_meta_def
        scenario_env_def scenario_defs attempt_def find_movies_def cursor_limit_def lower_def)
  show "search_out (dashboard scenario_env scenario_filter ''zzz'' 20) =
     ShowWarning ''No movies found matching your search criteria.''"
    by (rule panel_failures_are_local
      [where e = scenario_env and f = scenario_filter and q = "''zzz''" and n = 20,
        THEN conjunct2, THEN conjunct2, THEN conjunct1, THEN conjunct2, THEN conjunct2,
        THEN conjunct2, THEN mp, OF conjI [OF q r]])
next
  have fy: "fault sidebar_fault_env QYearStats = Some ''timeout''"
    by (simp add: sidebar_fault_env_def with_fault_def)
  show "year_slider (dashboard sidebar_fault_env scenario_filter ''zzz'' 20) = (1900, 2025)"
    by (rule panel_failures_are_local
      [where e = sidebar_fault_env and msg = "''timeout''" and f = scenario_filter
        and q = "''zzz''" and n = 20,
        THEN conjunct2, THEN conjunct2, THEN conjunct2, THEN conjunct1, THEN mp, OF fy])
next
  have fg: "fault sidebar_fault_env QGenreList = Some ''timeout''"
    by (simp add: sidebar_fault_env_def with_fault_def)
  show "genre_options (dashboard sidebar_fault_env scenario_filter ''zzz'' 20) = []"
    by (rule panel_failures_are_local
      [where e = sidebar_fault_env and msg = "''timeout''" and f = scenario_filter
        and q = "''zzz''" and n = 20,
        THEN conjunct2, THEN conjunct2, THEN conjunct2, THEN conjunct2, THEN conjunct1,
        THEN mp, OF fg])
next
  have s: "QYearStats = QYearStats \<or> QYearStats = QGenreList" by simp
  show "errors_shown (dashboard (with_fault scenario_env QYearStats (Some ''timeout''))
       scenario_filter ''zzz'' 20) =
     errors_shown (dashboard scenario_env scenario_filter ''zzz'' 20)"
    by (rule panel_failures_are_local
      [where e = scenario_env and Q = QYearStats and x = "Some ''timeout''"
        and f = scenario_filter and q = "''zzz''" and n = 20,
        THEN conjunct2, THEN conjunct2, THEN conjunct2, THEN conjunct2, THEN conjunct2,
        THEN conjunct1, THEN mp, OF s])
next
  have k: "kpi_try kpi_fault_env = Inl ''timeout''"
    by (simp add: kpi_try_def kpi_fault_env_def attempt_def count_if_listed_def scenario_store_def)
  show "discussion_out (dashboard kpi_fault_env scenario_filter ''zzz'' 20) = NotRun"
    by (rule panel_failures_are_local
      [where e = kpi_fault_env and msg = "''timeout''" and f = scenario_filter
        and q = "''zzz''" and n = 20,
        THEN conjunct2, THEN conjunct2, THEN conjunct2, THEN conjunct2, THEN conjunct2,
        THEN conjunct2, THEN mp, OF k])
qed

end
